theory Spec2Isabelle
  imports Complex_Main "HOL-Library.Multiset"
begin

section \<open>Data model (types.ts)\<close>

text \<open>
  A JavaScript \<open>number\<close> is modelled as a \<^typ>\<open>real\<close>.  The statements proved below are
  about control flow, states, storage and text; none of them depends on the value that
  the arithmetic of the scoring function yields.  Properties of that value (its range,
  its monotonicity, the label of extreme ratings) depend on the rounding and the overflow
  of binary64 arithmetic and are not stated over this model.  Field names that occur in
  several interfaces carry a suffix: \<open>_w\<close> for \<open>ScoringWeights\<close>, \<open>_r\<close> for the
  \<open>ratings\<close> object; \<open>id\<close> is \<open>id_c\<close> on a candidate and \<open>id_f\<close> on a file, and \<open>file\<close>
  is \<open>file_f\<close>.
\<close>

record ScoringWeights =
  skillsMatch_w :: real
  experienceRelevance_w :: real
  qualifications_w :: real
  seniority_w :: real
  clarity_w :: real

record Ratings =
  skillsMatch_r :: real
  experienceRelevance_r :: real
  qualifications_r :: real
  seniority_r :: real
  clarity_r :: real

datatype FitLabel = High | Medium | Low

record AIResponseRaw =
  candidateName :: string
  skillsFound :: "string list"
  skillsMissing :: "string list"
  qualifications :: "string list"
  achievements :: "string list"
  experienceSummary :: string
  strengths :: "string list"
  weaknesses :: "string list"
  ratings :: Ratings
  reasoning :: string

record CandidateAnalysis = AIResponseRaw +
  id_c :: string
  finalScore :: real
  fitLabel :: FitLabel

section \<open>Scoring function (App, calculateFinalScore)\<close>

text \<open>\<open>Object.values(w).reduce((a, b) => a + b, 0)\<close>: a left fold from 0 over the five
  values in the order of the keys.\<close>

definition totalWeight :: "ScoringWeights \<Rightarrow> real" where
  "totalWeight w =
     foldl (+) 0 [skillsMatch_w w, experienceRelevance_w w, qualifications_w w,
                  seniority_w w, clarity_w w]"

definition rawScore :: "Ratings \<Rightarrow> ScoringWeights \<Rightarrow> real" where
  "rawScore r w =
     (skillsMatch_r r * skillsMatch_w w) +
     (experienceRelevance_r r * experienceRelevance_w w) +
     (qualifications_r r * qualifications_w w) +
     (seniority_r r * seniority_w w) +
     (clarity_r r * clarity_w w)"

definition calculateFinalScore :: "CandidateAnalysis \<Rightarrow> ScoringWeights \<Rightarrow> CandidateAnalysis" where
  "calculateFinalScore candidate w =
     (if totalWeight w = 0 then candidate
      else
        (let finalScore' = rawScore (ratings candidate) w / totalWeight w;
             fitLabel' = (if finalScore' \<ge> 80 then High
                          else if finalScore' \<ge> 50 then Medium
                          else Low)
         in candidate\<lparr>finalScore := finalScore', fitLabel := fitLabel'\<rparr>))"

text \<open>A weight configuration has five non-negative values.  For such values the sum is
  zero exactly when all five are zero, in exact arithmetic and in floating point alike,
  so the test \<open>totalWeight === 0\<close> takes the same branch in both.\<close>

definition weightsList :: "ScoringWeights \<Rightarrow> real list" where
  "weightsList w =
     [skillsMatch_w w, experienceRelevance_w w, qualifications_w w, seniority_w w, clarity_w w]"

definition nonNegativeWeights :: "ScoringWeights \<Rightarrow> bool" where
  "nonNegativeWeights w = list_all (\<lambda>x. 0 \<le> x) (weightsList w)"

definition allRatings :: "real \<Rightarrow> Ratings" where
  "allRatings x =
     \<lparr>skillsMatch_r = x, experienceRelevance_r = x, qualifications_r = x,
      seniority_r = x, clarity_r = x\<rparr>"

definition DEFAULT_WEIGHTS :: ScoringWeights where
  "DEFAULT_WEIGHTS =
     \<lparr>skillsMatch_w = 35, experienceRelevance_w = 30, qualifications_w = 15,
      seniority_w = 10, clarity_w = 10\<rparr>"

section \<open>The host: browser built-ins and the external collaborator\<close>

text \<open>
  What the code calls but does not define is a field of the record \<open>Host\<close>:
  \<open>process.env.API_KEY\<close>, the collaborator's \<open>generateContent\<close>, \<open>JSON.parse\<close> on
  the response text, \<open>FileReader.readAsDataURL\<close>, \<open>Number.prototype.toString\<close>,
  \<open>Number.prototype.toFixed\<close> and the clock.  A call that can throw or reject returns a
  sum, \<open>Inl\<close> the error.

  \<open>JSON.parse(...) as AIResponseRaw\<close> is an unchecked cast: the value parsed need not have
  the declared shape.  What the program does with it depends on the shape in three ways:
  \<open>Typed\<close> is a value of the declared shape; \<open>NoRatings\<close> is a value whose \<open>ratings\<close>
  property is \<open>undefined\<close> or \<open>null\<close> (\<open>{}\<close>, \<open>null\<close>, a number, ...), on which reading
  \<open>candidate.ratings.skillsMatch\<close> throws a TypeError; \<open>Untyped\<close> is any other value
  that is not of the declared shape, on which nothing throws but which is no
  \<open>AIResponseRaw\<close>.
\<close>

datatype parsed = Typed AIResponseRaw | NoRatings | Untyped

datatype js_error =
    ApiKeyNotFound
  | NoResponseFromAI
  | SyntaxError
  | CollaboratorError string
  | ReadError
  | TypeError

record File =
  fileName :: string
  fileType :: string
  fileBody :: string

record InlineData =
  mimeType :: string
  inlineBytes :: "string option"

record GenRequest =
  modelName :: string
  jdPart :: InlineData
  cvPart :: InlineData

record GenResponse =
  responseText :: "string option"

record Host =
  API_KEY :: "string option"
  generateContent :: "GenRequest \<Rightarrow> js_error + GenResponse"
  JSON_parse :: "string \<Rightarrow> js_error + parsed"
  readAsDataURL :: "File \<Rightarrow> js_error + string"
  numToString :: "real \<Rightarrow> string"
  toFixed :: "real \<Rightarrow> nat \<Rightarrow> string"
  nowISOString :: string

section \<open>File utilities (services/fileUtils)\<close>

text \<open>\<open>String.prototype.split\<close> on one character, and \<open>Array.prototype.join\<close>.\<close>

fun splitOn :: "char \<Rightarrow> string \<Rightarrow> string list" where
  "splitOn sep [] = [] # []"
| "splitOn sep (c # cs) =
     (if c = sep then [] # splitOn sep cs
      else (case splitOn sep cs of
              [] \<Rightarrow> [c] # []
            | p # ps \<Rightarrow> (c # p) # ps))"

fun join :: "string \<Rightarrow> string list \<Rightarrow> string" where
  "join sep [] = []"
| "join sep [x] = x"
| "join sep (x # y # ys) = x @ sep @ join sep (y # ys)"

text \<open>\<open>result.split(',')[1]\<close>: the element at index 1, \<open>undefined\<close> (here \<open>None\<close>) when the
  data URL has no comma.\<close>

definition fileToBase64 :: "Host \<Rightarrow> File \<Rightarrow> js_error + string option" where
  "fileToBase64 h f =
     (case readAsDataURL h f of
        Inl err \<Rightarrow> Inl err
      | Inr result \<Rightarrow>
          Inr (case drop 1 (splitOn (CHR '','') result) of
                 [] \<Rightarrow> None
               | base64 # _ \<Rightarrow> Some base64))"

definition headers :: "string list" where
  "headers =
     [''Rank'', ''Name'', ''Total Score'', ''Fit Label'', ''Skills Match (0-100)'',
      ''Experience (0-100)'', ''Qualifications (0-100)'', ''Strengths'', ''Weaknesses'']"

text \<open>\<open>s.replace(/"/g, '""')\<close> and the template \<open>"${...}"\<close> around it.\<close>

definition replaceQuotes :: "string \<Rightarrow> string" where
  "replaceQuotes s = concat (map (\<lambda>c. if c = CHR 0x22 then [CHR 0x22, CHR 0x22] else [c]) s)"

definition quoted :: "string \<Rightarrow> string" where
  "quoted s = CHR 0x22 # replaceQuotes s @ [CHR 0x22]"

definition fitLabelString :: "FitLabel \<Rightarrow> string" where
  "fitLabelString l = (case l of High \<Rightarrow> ''High'' | Medium \<Rightarrow> ''Medium'' | Low \<Rightarrow> ''Low'')"

text \<open>\<open>candidates.sort((a, b) => b.finalScore - a.finalScore)\<close>: the stable sort of the
  array by descending score, in place.\<close>

definition sortByScoreDesc :: "CandidateAnalysis list \<Rightarrow> CandidateAnalysis list" where
  "sortByScoreDesc candidates = sort_key (\<lambda>c. - finalScore c) candidates"

definition csvRow :: "Host \<Rightarrow> nat \<Rightarrow> CandidateAnalysis \<Rightarrow> string list" where
  "csvRow h index c =
     [numToString h (real (index + 1)),
      quoted (candidateName c),
      toFixed h (finalScore c) 1,
      fitLabelString (fitLabel c),
      numToString h (skillsMatch_r (ratings c)),
      numToString h (experienceRelevance_r (ratings c)),
      numToString h (qualifications_r (ratings c)),
      quoted (join ''; '' (strengths c)),
      quoted (join ''; '' (weaknesses c))]"

text \<open>\<open>generateCSV\<close> returns the text; since \<open>sort\<close> works on the argument itself, the
  second component is the content of the caller's array after the call.\<close>

definition generateCSV :: "Host \<Rightarrow> CandidateAnalysis list \<Rightarrow> string \<times> CandidateAnalysis list" where
  "generateCSV h candidates =
     (let sorted = sortByScoreDesc candidates;
          rows = map (\<lambda>(index, c). csvRow h index c) (enumerate 0 sorted)
      in (join [CHR 0x0A] (join '','' headers # map (\<lambda>r. join '','' r) rows), sorted))"



section \<open>Dashboard (components/Dashboard.tsx, handleDownload)\<close>

text \<open>Arrays are objects: the \<open>candidates\<close> prop is a reference into a store of arrays,
  and \<open>handleDownload\<close> hands that reference to \<open>generateCSV\<close>.  The download itself
  (\<open>downloadCSV\<close>) is the pair of the content and the file name.\<close>

type_synonym ref = nat
type_synonym arrays = "ref \<Rightarrow> CandidateAnalysis list"

definition handleDownload :: "Host \<Rightarrow> ref \<Rightarrow> arrays \<Rightarrow> (string \<times> string) \<times> arrays" where
  "handleDownload h candidates store =
     (let (csv, arr) = generateCSV h (store candidates);
          day = (case splitOn (CHR ''T'') (nowISOString h) of [] \<Rightarrow> [] | d # _ \<Rightarrow> d)
      in ((csv, ''cv_ranking_results_'' @ day @ ''.csv''), store(candidates := arr)))"

section \<open>The analysis call (services/gemini, analyzeCandidate)\<close>

definition MODEL_NAME :: string where
  "MODEL_NAME = ''gemini-2.5-flash''"

definition errorPlaceholder :: AIResponseRaw where
  "errorPlaceholder =
     \<lparr>candidateName = ''Unknown Candidate (Parse Error)'',
      skillsFound = [],
      skillsMissing = [],
      qualifications = [],
      achievements = [],
      experienceSummary = ''Failed to process this file.'',
      strengths = [],
      weaknesses = [''File could not be analyzed by AI''],
      ratings = \<lparr>skillsMatch_r = 0, experienceRelevance_r = 0, qualifications_r = 0,
                 seniority_r = 0, clarity_r = 0\<rparr>,
      reasoning = ''An error occurred during AI processing. Please check the file format or try again.''\<rparr>"

text \<open>The argument of \<open>generateContent\<close>: the model and the two inline documents (the
  prompt texts, the response schema and the temperature are constants).\<close>

definition analysisRequest :: "string option \<Rightarrow> string \<Rightarrow> string option \<Rightarrow> string \<Rightarrow> GenRequest" where
  "analysisRequest jdBase64 jdMimeType cvBase64 cvMimeType =
     \<lparr>modelName = MODEL_NAME,
      jdPart = \<lparr>mimeType = jdMimeType, inlineBytes = jdBase64\<rparr>,
      cvPart = \<lparr>mimeType = cvMimeType, inlineBytes = cvBase64\<rparr>\<rparr>"

text \<open>The body of the \<open>try\<close> block: every \<open>throw\<close> and every rejected call is an \<open>Inl\<close>.
  \<open>!apiKey\<close> and \<open>!response.text\<close> hold for \<open>undefined\<close> and for the empty string.\<close>

definition analyzeAttempt ::
  "Host \<Rightarrow> string option \<Rightarrow> string \<Rightarrow> string option \<Rightarrow> string \<Rightarrow> js_error + parsed" where
  "analyzeAttempt h jdBase64 jdMimeType cvBase64 cvMimeType =
     (case API_KEY h of
        None \<Rightarrow> Inl ApiKeyNotFound
      | Some apiKey \<Rightarrow>
          if apiKey = [] then Inl ApiKeyNotFound
          else
            (case generateContent h (analysisRequest jdBase64 jdMimeType cvBase64 cvMimeType) of
               Inl err \<Rightarrow> Inl err
             | Inr response \<Rightarrow>
                 (case responseText response of
                    None \<Rightarrow> Inl NoResponseFromAI
                  | Some t \<Rightarrow>
                      if t = [] then Inl NoResponseFromAI
                      else JSON_parse h t)))"

text \<open>The whole function: the \<open>catch\<close> turns every error of the body into the placeholder,
  which has the declared shape.  The result type keeps an \<open>Inl\<close> for an error that would
  leave the function.\<close>

definition analyzeCandidate ::
  "Host \<Rightarrow> string option \<Rightarrow> string \<Rightarrow> string option \<Rightarrow> string \<Rightarrow> js_error + parsed" where
  "analyzeCandidate h jdBase64 jdMimeType cvBase64 cvMimeType =
     (case analyzeAttempt h jdBase64 jdMimeType cvBase64 cvMimeType of
        Inl err \<Rightarrow> Inr (Typed errorPlaceholder)
      | Inr data \<Rightarrow> Inr data)"

section \<open>Application state (App)\<close>

datatype Status = Pending | Processing | Completed | Error

record ProcessingFile =
  id_f :: string
  file_f :: File
  status :: Status
  error :: "string option"
  result :: "CandidateAnalysis option"

text \<open>A value of local storage is a string; the strings the application writes are
  \<open>JSON.stringify\<close> of the weights or of the result list, and \<open>JSON.parse\<close> gives the
  value back, so the blob is modelled by the value it encodes.\<close>

datatype blob =
    WeightsBlob ScoringWeights
  | ResultsBlob "CandidateAnalysis list"
  | OtherBlob string

text \<open>The state of \<open>App\<close> that the batch loop, the scoring and the persistence touch,
  and the browser's local storage.  The preview and drag-and-drop state is left out.\<close>

record AppState =
  jdFile :: "File option"
  cvFiles :: "ProcessingFile list"
  weights :: ScoringWeights
  isProcessing :: bool
  results :: "CandidateAnalysis list"
  currentProcessingIndex :: int
  localStorage :: "string \<rightharpoonup> blob"

definition WEIGHTS_KEY :: string where
  "WEIGHTS_KEY = ''cv_ranker_weights''"

definition RESULTS_KEY :: string where
  "RESULTS_KEY = ''cv_ranker_results''"

subsection \<open>Effects\<close>

text \<open>The two saving effects (dependencies \<open>[weights]\<close> and \<open>[results]\<close>).\<close>

definition saveWeights :: "AppState \<Rightarrow> AppState" where
  "saveWeights s = s\<lparr>localStorage := (localStorage s)(WEIGHTS_KEY \<mapsto> WeightsBlob (weights s))\<rparr>"

definition saveResults :: "AppState \<Rightarrow> AppState" where
  "saveResults s =
     (if length (results s) > 0
      then s\<lparr>localStorage := (localStorage s)(RESULTS_KEY \<mapsto> ResultsBlob (results s))\<rparr>
      else s)"

text \<open>The recalculation effect (dependencies \<open>[weights, results.length]\<close>).  Its
  \<open>setResults(updatedResults)\<close> keeps the length of the list, so of the effects only the
  saving of the results runs after it.\<close>

definition recalculateScores :: "Host \<Rightarrow> AppState \<Rightarrow> AppState" where
  "recalculateScores h s =
     (if length (results s) > 0 then
        (let updatedResults = map (\<lambda>r. calculateFinalScore r (weights s)) (results s);
             currentScores = join '','' (map (\<lambda>r. numToString h (finalScore r)) (results s));
             newScores = join '','' (map (\<lambda>r. numToString h (finalScore r)) updatedResults)
         in if currentScores \<noteq> newScores
            then saveResults (s\<lparr>results := updatedResults\<rparr>)
            else s)
      else s)"

text \<open>A state setter followed by the effects whose dependencies it changes.  Every
  call in the source passes a fresh object or array, so the saving effect always runs;
  the recalculation runs after \<open>setWeights\<close>, and after \<open>setResults\<close> when the length of
  the list changes.\<close>

definition setWeights :: "Host \<Rightarrow> ScoringWeights \<Rightarrow> AppState \<Rightarrow> AppState" where
  "setWeights h w s = recalculateScores h (saveWeights (s\<lparr>weights := w\<rparr>))"

definition setResults :: "Host \<Rightarrow> CandidateAnalysis list \<Rightarrow> AppState \<Rightarrow> AppState" where
  "setResults h rs s =
     (let s' = saveResults (s\<lparr>results := rs\<rparr>)
      in if length rs \<noteq> length (results s) then recalculateScores h s' else s')"

text \<open>\<open>clearAllData\<close>; the answer to \<open>window.confirm\<close> is the argument \<open>confirmed\<close>.\<close>

definition clearAllData :: "Host \<Rightarrow> bool \<Rightarrow> AppState \<Rightarrow> AppState" where
  "clearAllData h confirmed s =
     (if confirmed then
        (let s1 = setResults h [] s;
             s2 = s1\<lparr>cvFiles := [], jdFile := None\<rparr>
         in s2\<lparr>localStorage := (localStorage s2)(RESULTS_KEY := None)\<rparr>)
      else s)"

text \<open>The download of the report.  \<open>App\<close> renders the \<open>Dashboard\<close> when the result list is
  not empty and passes the \<open>results\<close> array itself as the \<open>candidates\<close> prop, so the array
  that \<open>handleDownload\<close> hands to \<open>generateCSV\<close> is the one the state holds.  No state
  setter is called, so no effect runs.\<close>

definition downloadReport :: "Host \<Rightarrow> AppState \<Rightarrow> (string \<times> string) option \<times> AppState" where
  "downloadReport h s =
     (if length (results s) > 0 then
        (let (download, store) = handleDownload h 0 (\<lambda>r. results s)
         in (Some download, s\<lparr>results := store 0\<rparr>))
      else (None, s))"

text \<open>Startup.  \<open>initialState\<close> is the state of the first render (the initial values of
  \<open>useState\<close>) over the storage the browser holds.  \<open>mount\<close> is the first commit: the
  loading effect reads both keys before the saving effect writes the default weights;
  the loaded values are then set, each setter followed by its effects.  A value that
  \<open>JSON.parse\<close> rejects is logged and skipped; a blob of another kind stands for such a
  value.\<close>

definition initialState :: "(string \<rightharpoonup> blob) \<Rightarrow> AppState" where
  "initialState st =
     \<lparr>jdFile = None, cvFiles = [], weights = DEFAULT_WEIGHTS, isProcessing = False,
      results = [], currentProcessingIndex = - 1, localStorage = st\<rparr>"

definition mount :: "Host \<Rightarrow> (string \<rightharpoonup> blob) \<Rightarrow> AppState" where
  "mount h st =
     (let s0 = initialState st;
          savedWeights = localStorage s0 WEIGHTS_KEY;
          savedResults = localStorage s0 RESULTS_KEY;
          s1 = recalculateScores h (saveResults (saveWeights s0));
          s2 = (case savedWeights of
                  Some (WeightsBlob w) \<Rightarrow> setWeights h w s1
                | _ \<Rightarrow> s1);
          s3 = (case savedResults of
                  Some (ResultsBlob rs) \<Rightarrow> setResults h rs s2
                | _ \<Rightarrow> s2)
      in s3)"

text \<open>Vocabulary for the statements about persistence: the in-memory part of a state.\<close>

definition memory :: "AppState \<Rightarrow> AppState" where
  "memory s = s\<lparr>localStorage := Map.empty\<rparr>"

subsection \<open>The batch loop (startAnalysis)\<close>

text \<open>\<open>file.type || (file.name.endsWith('.pdf') ? 'application/pdf' : 'text/plain')\<close>.\<close>

definition endsWith :: "string \<Rightarrow> string \<Rightarrow> bool" where
  "endsWith s suffix =
     (length suffix \<le> length s \<and> drop (length s - length suffix) s = suffix)"

definition mimeOf :: "File \<Rightarrow> string" where
  "mimeOf f =
     (if fileType f \<noteq> [] then fileType f
      else if endsWith (fileName f) ''.pdf'' then ''application/pdf''
      else ''text/plain'')"

text \<open>\<open>prev.map((f, idx) => idx === i ? g(f) : f)\<close>.\<close>

definition mapAt :: "nat \<Rightarrow> ('a \<Rightarrow> 'a) \<Rightarrow> 'a list \<Rightarrow> 'a list" where
  "mapAt i g fs = map (\<lambda>(idx, f). if idx = i then g f else f) (enumerate 0 fs)"

text \<open>\<open>{ ...rawAnalysis, id, finalScore, fitLabel }\<close>.\<close>

definition candidateOf :: "AIResponseRaw \<Rightarrow> string \<Rightarrow> real \<Rightarrow> FitLabel \<Rightarrow> CandidateAnalysis" where
  "candidateOf rawAnalysis i fs fl =
     \<lparr>candidateName = candidateName rawAnalysis,
      skillsFound = skillsFound rawAnalysis,
      skillsMissing = skillsMissing rawAnalysis,
      qualifications = qualifications rawAnalysis,
      achievements = achievements rawAnalysis,
      experienceSummary = experienceSummary rawAnalysis,
      strengths = strengths rawAnalysis,
      weaknesses = weaknesses rawAnalysis,
      ratings = ratings rawAnalysis,
      reasoning = reasoning rawAnalysis,
      id_c = i, finalScore = fs, fitLabel = fl\<rparr>"

definition markError :: "nat \<Rightarrow> AppState \<Rightarrow> AppState" where
  "markError i s =
     s\<lparr>cvFiles := mapAt i (\<lambda>f. f\<lparr>status := Error, error := Some ''Failed to analyze''\<rparr>) (cvFiles s)\<rparr>"

text \<open>The outcome of a piece of code that can throw and that can also yield a value the
  types of this model do not hold.\<close>

datatype 'a completion = is_Returns: Returns 'a | is_Throws: Throws js_error | Untypable

definition returned :: "'a completion \<Rightarrow> 'a option" where
  "returned x = (case x of Returns v \<Rightarrow> Some v | Throws err \<Rightarrow> None | Untypable \<Rightarrow> None)"

text \<open>\<open>calculateFinalScore({ ...rawAnalysis, id: cv.id, finalScore: 0, fitLabel: 'Low' },
  weights)\<close> for a reply of any shape.  The spread never throws.  On a reply without
  \<open>ratings\<close> the function returns its argument when the weights sum to zero, an object
  that is no \<open>CandidateAnalysis\<close>, and throws at \<open>candidate.ratings.skillsMatch\<close>
  otherwise.  On any other reply that is not of the declared shape it returns an object
  that is no \<open>CandidateAnalysis\<close>.\<close>

definition scoreReply :: "parsed \<Rightarrow> string \<Rightarrow> ScoringWeights \<Rightarrow> CandidateAnalysis completion" where
  "scoreReply rawAnalysis i w =
     (case rawAnalysis of
        Typed r \<Rightarrow> Returns (calculateFinalScore (candidateOf r i 0 Low) w)
      | NoRatings \<Rightarrow> if totalWeight w = 0 then Untypable else Throws TypeError
      | Untyped \<Rightarrow> Untypable)"

text \<open>The statements of the inner \<open>try\<close> block up to \<open>fullResult\<close>, for the file
  \<open>cv = cvFiles[i]\<close> of the list the run started with; \<open>w\<close> is the \<open>weights\<close> the run
  started with.\<close>

definition tryBlock ::
  "Host \<Rightarrow> string option \<Rightarrow> string \<Rightarrow> ScoringWeights \<Rightarrow> ProcessingFile \<Rightarrow> CandidateAnalysis completion" where
  "tryBlock h jdBase64 jdMime w cv =
     (case fileToBase64 h (file_f cv) of
        Inl err \<Rightarrow> Throws err
      | Inr cvBase64 \<Rightarrow>
          (case analyzeCandidate h jdBase64 jdMime cvBase64 (mimeOf (file_f cv)) of
             Inl err \<Rightarrow> Throws err
           | Inr rawAnalysis \<Rightarrow> scoreReply rawAnalysis (id_f cv) w))"

text \<open>One iteration of the \<open>for\<close> loop.  A throw of the \<open>try\<close> block is caught by the inner
  \<open>catch\<close>.  When the block yields an object that is no \<open>CandidateAnalysis\<close> the source
  stores it in the result list; the result is then \<open>None\<close>: the state has left the
  states of this model.  (The local \<open>tempResults\<close> is written and never read.)\<close>

definition loopBody ::
  "Host \<Rightarrow> string option \<Rightarrow> string \<Rightarrow> ScoringWeights \<Rightarrow> nat \<Rightarrow> ProcessingFile \<Rightarrow> AppState
   \<Rightarrow> AppState option" where
  "loopBody h jdBase64 jdMime w i cv s =
     (let s1 = s\<lparr>currentProcessingIndex := int i\<rparr>;
          s2 = s1\<lparr>cvFiles := mapAt i (\<lambda>f. f\<lparr>status := Processing\<rparr>) (cvFiles s1)\<rparr>
      in case tryBlock h jdBase64 jdMime w cv of
           Throws err \<Rightarrow> Some (markError i s2)
         | Returns fullResult \<Rightarrow>
             (let s3 = setResults h (results s2 @ [fullResult]) s2
              in Some (s3\<lparr>cvFiles := mapAt i (\<lambda>f. f\<lparr>status := Completed\<rparr>) (cvFiles s3)\<rparr>))
         | Untypable \<Rightarrow> None)"

fun analysisLoop ::
  "Host \<Rightarrow> string option \<Rightarrow> string \<Rightarrow> ScoringWeights \<Rightarrow> ProcessingFile list \<Rightarrow> nat \<Rightarrow> AppState
   \<Rightarrow> AppState option" where
  "analysisLoop h jdBase64 jdMime w [] i s = Some s"
| "analysisLoop h jdBase64 jdMime w (cv # rest) i s =
     (case loopBody h jdBase64 jdMime w i cv s of
        None \<Rightarrow> None
      | Some s' \<Rightarrow> analysisLoop h jdBase64 jdMime w rest (Suc i) s')"

text \<open>\<open>startAnalysis\<close>: the guard, the reset, the outer \<open>try\<close> (a job description that
  cannot be read ends the run before the loop) and the \<open>finally\<close>.  The run is modelled
  without any other handler running between its awaits: while it lasts the user
  removes no file, downloads no report and starts no new session.\<close>

definition startAnalysis :: "Host \<Rightarrow> AppState \<Rightarrow> AppState option" where
  "startAnalysis h s =
     (case jdFile s of
        None \<Rightarrow> Some s
      | Some jd \<Rightarrow>
          if length (cvFiles s) = 0 then Some s
          else
            (let s1 = setResults h [] (s\<lparr>isProcessing := True\<rparr>);
                 s2 = (case fileToBase64 h jd of
                         Inl err \<Rightarrow> Some s1
                       | Inr jdBase64 \<Rightarrow>
                           analysisLoop h jdBase64 (mimeOf jd) (weights s) (cvFiles s) 0 s1)
             in map_option (\<lambda>s2. s2\<lparr>isProcessing := False, currentProcessingIndex := - 1\<rparr>) s2))"

text \<open>Vocabulary for the statements about a run: a candidate with the score and the label
  set to the values the source gives them before scoring.\<close>

definition unscored :: "CandidateAnalysis \<Rightarrow> CandidateAnalysis" where
  "unscored c = c\<lparr>finalScore := 0, fitLabel := Low\<rparr>"

section \<open>Sample data\<close>

definition sampleRaw :: "string \<Rightarrow> Ratings \<Rightarrow> AIResponseRaw" where
  "sampleRaw n r =
     \<lparr>candidateName = n, skillsFound = [''SQL''], skillsMissing = [''Go''],
      qualifications = [''BSc''], achievements = [], experienceSummary = ''Five years'',
      strengths = [''Communication'', ''SQL''], weaknesses = [''No Go''],
      ratings = r, reasoning = ''Solid''\<rparr>"

definition sampleRatings :: Ratings where
  "sampleRatings =
     \<lparr>skillsMatch_r = 80, experienceRelevance_r = 70, qualifications_r = 60,
      seniority_r = 50, clarity_r = 90\<rparr>"

definition sampleCandidate :: CandidateAnalysis where
  "sampleCandidate = candidateOf (sampleRaw ''Ada'' sampleRatings) ''a1'' 0 Low"

definition zeroWeights :: ScoringWeights where
  "zeroWeights =
     \<lparr>skillsMatch_w = 0, experienceRelevance_w = 0, qualifications_w = 0,
      seniority_w = 0, clarity_w = 0\<rparr>"

definition skillsOnlyWeights :: ScoringWeights where
  "skillsOnlyWeights =
     \<lparr>skillsMatch_w = 100, experienceRelevance_w = 0, qualifications_w = 0,
      seniority_w = 0, clarity_w = 0\<rparr>"

definition scoredSample :: CandidateAnalysis where
  "scoredSample = calculateFinalScore sampleCandidate DEFAULT_WEIGHTS"

definition janeDoe :: CandidateAnalysis where
  "janeDoe =
     (candidateOf (sampleRaw ''Doe, Jane'' sampleRatings) ''c1'' 0 Low)
       \<lparr>finalScore := 91.2, fitLabel := High\<rparr>"

definition bobLi :: CandidateAnalysis where
  "bobLi =
     (candidateOf (sampleRaw (''Bob '' @ [CHR 0x22] @ ''B'' @ [CHR 0x22] @ '' Li'') sampleRatings)
        ''c2'' 0 Low)
       \<lparr>finalScore := 54, fitLabel := Medium\<rparr>"

definition untypedReply :: string where
  "untypedReply = ''{'' @ [CHR 0x22] @ ''ratings'' @ [CHR 0x22] @ '':5}''"

text \<open>A host for the sample runs: an API key is present; the collaborator answers with
  the CV's data as the response text, and with no text for the data \<open>bad\<close>; the parser
  reads \<open>{}\<close> as it is, reads \<open>untypedReply\<close> (an object whose \<open>ratings\<close> is the number 5)
  as a value of another shape, and otherwise makes the text the candidate's name; a
  file with the body \<open>unreadable\<close> cannot be read; numbers are rendered by tables
  that agree with the built-ins on the sample values.\<close>

definition sampleHost :: Host where
  "sampleHost =
     \<lparr>API_KEY = Some ''key'',
      generateContent =
        (\<lambda>req. if inlineBytes (cvPart req) = Some ''bad''
               then Inr \<lparr>responseText = None\<rparr>
               else Inr \<lparr>responseText = inlineBytes (cvPart req)\<rparr>),
      JSON_parse =
        (\<lambda>t. if t = ''{}'' then Inr NoRatings
             else if t = untypedReply then Inr Untyped
             else Inr (Typed (sampleRaw t sampleRatings))),
      readAsDataURL =
        (\<lambda>f. if fileBody f = ''unreadable'' then Inl ReadError
             else Inr (''data:text/plain;base64,'' @ fileBody f)),
      numToString =
        (\<lambda>x. case map_of [(0, ''0''), (1, ''1''), (2, ''2''), (3, ''3''), (50, ''50''),
                           (60, ''60''), (70, ''70''), (72, ''72''), (80, ''80''), (90, ''90'')] x of
               Some t \<Rightarrow> t
             | None \<Rightarrow> ''NaN''),
      toFixed =
        (\<lambda>x d. case map_of [(91.2, ''91.2''), (54, ''54.0''), (72, ''72.0''), (0, ''0.0'')] x of
                 Some t \<Rightarrow> t
               | None \<Rightarrow> ''NaN''),
      nowISOString = ''2024-05-01T10:00:00.000Z''\<rparr>"

definition sampleFile :: "string \<Rightarrow> string \<Rightarrow> File" where
  "sampleFile n body = \<lparr>fileName = n, fileType = [], fileBody = body\<rparr>"

definition sampleUpload :: "string \<Rightarrow> string \<Rightarrow> string \<Rightarrow> ProcessingFile" where
  "sampleUpload i n body =
     \<lparr>id_f = i, file_f = sampleFile n body, status = Pending, error = None, result = None\<rparr>"

definition sampleState :: "ProcessingFile list \<Rightarrow> CandidateAnalysis list \<Rightarrow> AppState" where
  "sampleState fs rs =
     \<lparr>jdFile = Some (sampleFile ''jd.pdf'' ''JD''), cvFiles = fs, weights = DEFAULT_WEIGHTS,
      isProcessing = False, results = rs, currentProcessingIndex = - 1,
      localStorage = Map.empty\<rparr>"

text \<open>A batch of three uploads; the body of the second is the argument.\<close>

definition sampleBatch :: "string \<Rightarrow> ProcessingFile list" where
  "sampleBatch body =
     [sampleUpload ''f1'' ''a.pdf'' ''Ann'', sampleUpload ''f2'' ''b.pdf'' body,
      sampleUpload ''f3'' ''c.pdf'' ''Cy'']"

section \<open>Properties of the scoring function\<close>

lemma totalWeight_sum:
  "totalWeight w =
     skillsMatch_w w + experienceRelevance_w w + qualifications_w w + seniority_w w + clarity_w w"
  by (simp add: totalWeight_def)

lemma totalWeight_sum_list: "totalWeight w = sum_list (weightsList w)"
  by (simp add: totalWeight_sum weightsList_def)

lemma calculateFinalScore_frame:
  "(calculateFinalScore c w)\<lparr>finalScore := finalScore c, fitLabel := fitLabel c\<rparr> = c"
  by (simp add: calculateFinalScore_def Let_def)

lemma calculateFinalScore_ratings [simp]:
  "ratings (calculateFinalScore c w) = ratings c"
  by (simp add: calculateFinalScore_def Let_def)

lemma calculateFinalScore_id [simp]:
  "id_c (calculateFinalScore c w) = id_c c"
  by (simp add: calculateFinalScore_def Let_def)

lemma calculateFinalScore_zero:
  "totalWeight w = 0 \<Longrightarrow> calculateFinalScore c w = c"
  by (simp add: calculateFinalScore_def)

lemma map_calculateFinalScore_zero:
  "totalWeight w = 0 \<Longrightarrow> map (\<lambda>r. calculateFinalScore r w) rs = rs"
  by (induction rs) (simp_all add: calculateFinalScore_zero)

lemma results_saveWeights [simp]: "results (saveWeights s) = results s"
  by (simp add: saveWeights_def)

lemma weights_saveWeights [simp]: "weights (saveWeights s) = weights s"
  by (simp add: saveWeights_def)

lemma results_saveResults [simp]: "results (saveResults s) = results s"
  by (simp add: saveResults_def)

lemma weights_saveResults [simp]: "weights (saveResults s) = weights s"
  by (simp add: saveResults_def)

lemma recalculateScores_fixed:
  assumes "map (\<lambda>r. calculateFinalScore r (weights s)) (results s) = results s"
  shows "recalculateScores h s = s"
  using assms by (simp add: recalculateScores_def Let_def)

text \<open>
  C2.  When the five weights sum to zero, \<open>calculateFinalScore\<close> returns the candidate
  as it is (same \<open>finalScore\<close>, same \<open>fitLabel\<close>, same other fields) instead of dividing
  by zero; so recomputing a list of stored candidates with such weights changes none of
  them, and the result list of the application is the same after the weights are set.
\<close>

theorem C2_zero_sum_noop:
  assumes "sum_list (weightsList w) = 0"
  shows "calculateFinalScore c w = c
       \<and> map (\<lambda>r. calculateFinalScore r w) rs = rs
       \<and> results (setWeights h w s) = results s"
proof -
  have z: "totalWeight w = 0"
    using assms by (simp add: totalWeight_sum_list)
  have fp: "map (\<lambda>r. calculateFinalScore r (weights (saveWeights (s\<lparr>weights := w\<rparr>))))
               (results (saveWeights (s\<lparr>weights := w\<rparr>)))
             = results (saveWeights (s\<lparr>weights := w\<rparr>))"
    by (simp add: map_calculateFinalScore_zero [OF z])
  have "setWeights h w s = saveWeights (s\<lparr>weights := w\<rparr>)"
    unfolding setWeights_def by (rule recalculateScores_fixed [OF fp])
  then show ?thesis
    by (simp add: calculateFinalScore_zero [OF z] map_calculateFinalScore_zero [OF z])
qed

theorem C2_zero_sum_noop_witness:
  "sum_list (weightsList zeroWeights) = 0
   \<and> calculateFinalScore (sampleCandidate\<lparr>finalScore := 72, fitLabel := Medium\<rparr>) zeroWeights
       = sampleCandidate\<lparr>finalScore := 72, fitLabel := Medium\<rparr>
   \<and> results (setWeights sampleHost zeroWeights
         (sampleState [] [sampleCandidate\<lparr>finalScore := 72, fitLabel := Medium\<rparr>]))
       = [sampleCandidate\<lparr>finalScore := 72, fitLabel := Medium\<rparr>]"
proof -
  have h: "sum_list (weightsList zeroWeights) = 0"
    by (simp add: weightsList_def zeroWeights_def)
  have r: "results (sampleState [] [sampleCandidate\<lparr>finalScore := 72, fitLabel := Medium\<rparr>])
           = [sampleCandidate\<lparr>finalScore := 72, fitLabel := Medium\<rparr>]"
    by (simp add: sampleState_def)
  show ?thesis
    using C2_zero_sum_noop [OF h, of "sampleCandidate\<lparr>finalScore := 72, fitLabel := Medium\<rparr>"
        "[]" sampleHost "sampleState [] [sampleCandidate\<lparr>finalScore := 72, fitLabel := Medium\<rparr>]"]
      h r by simp
qed

section \<open>The analysis call never raises\<close>

lemma analyzeCandidate_Inr:
  "\<exists>r. analyzeCandidate h jd jm cv cm = Inr r"
  by (simp add: analyzeCandidate_def split: sum.split)

lemma analyzeCandidate_failure:
  "analyzeAttempt h jd jm cv cm = Inl e \<Longrightarrow>
   analyzeCandidate h jd jm cv cm = Inr (Typed errorPlaceholder)"
  by (simp add: analyzeCandidate_def)

lemma analyzeCandidate_success:
  "analyzeAttempt h jd jm cv cm = Inr d \<Longrightarrow>
   analyzeCandidate h jd jm cv cm = Inr d"
  by (simp add: analyzeCandidate_def)

text \<open>
  C5.  \<open>analyzeCandidate\<close> never lets an error out: its result is always a record
  (\<open>Inr\<close>).  Whenever the body fails, in particular when the API key is missing or empty,
  when the collaborator's call fails, when the response has no text, and when the text
  cannot be parsed, the result is the placeholder record, whose five ratings are 0 and
  whose text fields carry the explanatory notes.
\<close>

theorem C5_never_throws:
  "(\<exists>r. analyzeCandidate h jd jm cv cm = Inr r)
   \<and> (analyzeAttempt h jd jm cv cm = Inl e0
        \<longrightarrow> analyzeCandidate h jd jm cv cm = Inr (Typed errorPlaceholder))
   \<and> (API_KEY h = None \<or> API_KEY h = Some []
        \<longrightarrow> analyzeCandidate h jd jm cv cm = Inr (Typed errorPlaceholder))
   \<and> (generateContent h (analysisRequest jd jm cv cm) = Inl e1
        \<longrightarrow> analyzeCandidate h jd jm cv cm = Inr (Typed errorPlaceholder))
   \<and> (generateContent h (analysisRequest jd jm cv cm) = Inr response
        \<and> (responseText response = None \<or> responseText response = Some [])
        \<longrightarrow> analyzeCandidate h jd jm cv cm = Inr (Typed errorPlaceholder))
   \<and> (generateContent h (analysisRequest jd jm cv cm) = Inr response
        \<and> responseText response = Some t \<and> JSON_parse h t = Inl e2
        \<longrightarrow> analyzeCandidate h jd jm cv cm = Inr (Typed errorPlaceholder))
   \<and> ratings errorPlaceholder = allRatings 0
   \<and> candidateName errorPlaceholder = ''Unknown Candidate (Parse Error)''
   \<and> experienceSummary errorPlaceholder = ''Failed to process this file.''
   \<and> weaknesses errorPlaceholder = [''File could not be analyzed by AI'']
   \<and> reasoning errorPlaceholder =
       ''An error occurred during AI processing. Please check the file format or try again.''"
proof -
  have key: "API_KEY h = None \<or> API_KEY h = Some [] \<Longrightarrow>
             \<exists>e. analyzeAttempt h jd jm cv cm = Inl e"
    by (auto simp: analyzeAttempt_def)
  have call: "generateContent h (analysisRequest jd jm cv cm) = Inl e1 \<Longrightarrow>
              \<exists>e. analyzeAttempt h jd jm cv cm = Inl e"
    by (simp add: analyzeAttempt_def split: option.split)
  have notext: "generateContent h (analysisRequest jd jm cv cm) = Inr response \<Longrightarrow>
                responseText response = None \<or> responseText response = Some [] \<Longrightarrow>
                \<exists>e. analyzeAttempt h jd jm cv cm = Inl e"
    by (auto simp: analyzeAttempt_def split: option.split)
  have parse: "generateContent h (analysisRequest jd jm cv cm) = Inr response \<Longrightarrow>
               responseText response = Some t \<Longrightarrow> JSON_parse h t = Inl e2 \<Longrightarrow>
               \<exists>e. analyzeAttempt h jd jm cv cm = Inl e"
    by (simp add: analyzeAttempt_def split: option.split)
  have fields: "ratings errorPlaceholder = allRatings 0"
    "candidateName errorPlaceholder = ''Unknown Candidate (Parse Error)''"
    "experienceSummary errorPlaceholder = ''Failed to process this file.''"
    "weaknesses errorPlaceholder = [''File could not be analyzed by AI'']"
    "reasoning errorPlaceholder =
       ''An error occurred during AI processing. Please check the file format or try again.''"
    by (simp_all add: errorPlaceholder_def allRatings_def)
  show ?thesis
    using key call notext parse fields analyzeCandidate_Inr [of h jd jm cv cm]
      analyzeCandidate_failure [of h jd jm cv cm]
    by blast
qed

theorem C5_never_throws_witness:
  "API_KEY (sampleHost\<lparr>API_KEY := None\<rparr>) = None
   \<and> analyzeCandidate (sampleHost\<lparr>API_KEY := None\<rparr>) (Some ''JD'') ''text/plain'' (Some ''Ann'') ''text/plain''
       = Inr (Typed errorPlaceholder)
   \<and> generateContent (sampleHost\<lparr>generateContent := (\<lambda>req. Inl (CollaboratorError ''503''))\<rparr>)
         (analysisRequest (Some ''JD'') ''text/plain'' (Some ''Ann'') ''text/plain'')
       = Inl (CollaboratorError ''503'')
   \<and> analyzeCandidate (sampleHost\<lparr>generateContent := (\<lambda>req. Inl (CollaboratorError ''503''))\<rparr>)
         (Some ''JD'') ''text/plain'' (Some ''Ann'') ''text/plain''
       = Inr (Typed errorPlaceholder)
   \<and> generateContent sampleHost (analysisRequest (Some ''JD'') ''text/plain'' (Some ''bad'') ''text/plain'')
       = Inr \<lparr>responseText = None\<rparr>
   \<and> analyzeAttempt sampleHost (Some ''JD'') ''text/plain'' (Some ''bad'') ''text/plain''
       = Inl NoResponseFromAI
   \<and> analyzeCandidate sampleHost (Some ''JD'') ''text/plain'' (Some ''bad'') ''text/plain''
       = Inr (Typed errorPlaceholder)
   \<and> JSON_parse (sampleHost\<lparr>JSON_parse := (\<lambda>t. Inl SyntaxError)\<rparr>) ''Ann'' = Inl SyntaxError
   \<and> analyzeCandidate (sampleHost\<lparr>JSON_parse := (\<lambda>t. Inl SyntaxError)\<rparr>)
         (Some ''JD'') ''text/plain'' (Some ''Ann'') ''text/plain''
       = Inr (Typed errorPlaceholder)"
proof -
  have k: "API_KEY (sampleHost\<lparr>API_KEY := None\<rparr>) = None"
    by simp
  have c: "generateContent (sampleHost\<lparr>generateContent := (\<lambda>req. Inl (CollaboratorError ''503''))\<rparr>)
             (analysisRequest (Some ''JD'') ''text/plain'' (Some ''Ann'') ''text/plain'')
           = Inl (CollaboratorError ''503'')"
    by simp
  have n: "generateContent sampleHost
             (analysisRequest (Some ''JD'') ''text/plain'' (Some ''bad'') ''text/plain'')
           = Inr \<lparr>responseText = None\<rparr>"
    by (simp add: sampleHost_def analysisRequest_def)
  have a: "analyzeAttempt sampleHost (Some ''JD'') ''text/plain'' (Some ''bad'') ''text/plain''
           = Inl NoResponseFromAI"
    by (simp add: analyzeAttempt_def sampleHost_def analysisRequest_def)
  have g: "generateContent (sampleHost\<lparr>JSON_parse := (\<lambda>t. Inl SyntaxError)\<rparr>)
             (analysisRequest (Some ''JD'') ''text/plain'' (Some ''Ann'') ''text/plain'')
           = Inr \<lparr>responseText = Some ''Ann''\<rparr>"
    by (simp add: sampleHost_def analysisRequest_def)
  have p: "JSON_parse (sampleHost\<lparr>JSON_parse := (\<lambda>t. Inl SyntaxError)\<rparr>) ''Ann'' = Inl SyntaxError"
    by simp
  show ?thesis
    using C5_never_throws [of "sampleHost\<lparr>API_KEY := None\<rparr>" "Some ''JD''" "''text/plain''"
        "Some ''Ann''" "''text/plain''"]
      C5_never_throws [of "sampleHost\<lparr>generateContent := (\<lambda>req. Inl (CollaboratorError ''503''))\<rparr>"
        "Some ''JD''" "''text/plain''" "Some ''Ann''" "''text/plain''" _ "CollaboratorError ''503''"]
      C5_never_throws [of sampleHost "Some ''JD''" "''text/plain''" "Some ''bad''" "''text/plain''"
        NoResponseFromAI _ "\<lparr>responseText = None\<rparr>"]
      C5_never_throws [of "sampleHost\<lparr>JSON_parse := (\<lambda>t. Inl SyntaxError)\<rparr>"
        "Some ''JD''" "''text/plain''" "Some ''Ann''" "''text/plain''" _ _
        "\<lparr>responseText = Some ''Ann''\<rparr>" "''Ann''" SyntaxError]
      k c n a g p
    by simp
qed

section \<open>The exported report\<close>

lemma sortByScoreDesc_sorted:
  "sorted_wrt (\<lambda>a b. finalScore b \<le> finalScore a) (sortByScoreDesc cs)"
proof -
  have "sorted (map (\<lambda>c. - finalScore c) (sortByScoreDesc cs))"
    unfolding sortByScoreDesc_def by (rule sorted_sort_key)
  then show ?thesis
    by (simp add: sorted_map)
qed

lemma mset_sortByScoreDesc: "mset (sortByScoreDesc cs) = mset cs"
  by (simp add: sortByScoreDesc_def)

lemma length_sortByScoreDesc [simp]: "length (sortByScoreDesc cs) = length cs"
  by (simp add: sortByScoreDesc_def)

lemma sortByScoreDesc_stable:
  "filter (\<lambda>c. finalScore c = x) (sortByScoreDesc cs) = filter (\<lambda>c. finalScore c = x) cs"
proof -
  have "filter (\<lambda>c. - finalScore c = - x) (sort_key (\<lambda>c. - finalScore c) cs)
        = filter (\<lambda>c. - finalScore c = - x) cs"
    by (rule sort_key_stable)
  then show ?thesis
    by (simp add: sortByScoreDesc_def)
qed



lemma generateCSV_array: "snd (generateCSV h cs) = sortByScoreDesc cs"
  by (simp add: generateCSV_def Let_def)




lemma join_Cons2: "join sep (x # y # ys) = x @ sep @ join sep (y # ys)"
  by simp


lemma sortByScoreDesc_pair:
  assumes "finalScore b \<le> finalScore a"
  shows "sortByScoreDesc [a, b] = [a, b]" and "finalScore b < finalScore a \<Longrightarrow> sortByScoreDesc [b, a] = [a, b]"
  using assms by (simp_all add: sortByScoreDesc_def)



text \<open>
  C10.  \<open>generateCSV\<close> sorts the array it is given: after the call the caller's array is
  the input in descending order of \<open>finalScore\<close>, a permutation of what it was (the
  records are the same, and records of equal score keep their order).  \<open>handleDownload\<close>
  passes the \<open>candidates\<close> prop itself, so after a download the array behind that
  reference is so permuted; every other array is as before.
\<close>

theorem C10_in_place_sort:
  "snd (generateCSV h cs) = sortByScoreDesc cs
   \<and> mset (snd (generateCSV h cs)) = mset cs
   \<and> sorted_wrt (\<lambda>a b. finalScore b \<le> finalScore a) (snd (generateCSV h cs))
   \<and> (\<forall>x. filter (\<lambda>c. finalScore c = x) (snd (generateCSV h cs))
          = filter (\<lambda>c. finalScore c = x) cs)
   \<and> snd (handleDownload h candidates store) candidates = snd (generateCSV h (store candidates))
   \<and> mset (snd (handleDownload h candidates store) candidates) = mset (store candidates)
   \<and> sorted_wrt (\<lambda>a b. finalScore b \<le> finalScore a)
        (snd (handleDownload h candidates store) candidates)
   \<and> (\<forall>other. other \<noteq> candidates
         \<longrightarrow> snd (handleDownload h candidates store) other = store other)
   \<and> fst (fst (handleDownload h candidates store)) = fst (generateCSV h (store candidates))"
proof -
  have dl: "snd (handleDownload h candidates store)
            = store(candidates := snd (generateCSV h (store candidates)))"
    and tx: "fst (fst (handleDownload h candidates store)) = fst (generateCSV h (store candidates))"
    by (simp_all add: handleDownload_def Let_def split: prod.split)
  show ?thesis
    using sortByScoreDesc_stable [of _ cs]
    by (simp add: dl tx generateCSV_array mset_sortByScoreDesc sortByScoreDesc_sorted)
qed

theorem C10_in_place_sort_witness:
  "(1::nat) \<noteq> 0
   \<and> snd (handleDownload sampleHost 0 (\<lambda>r. if r = 0 then [bobLi, janeDoe] else [bobLi])) 0
       = [janeDoe, bobLi]
   \<and> snd (handleDownload sampleHost 0 (\<lambda>r. if r = 0 then [bobLi, janeDoe] else [bobLi])) 1
       = [bobLi]"
proof -
  have sc: "finalScore bobLi < finalScore janeDoe"
    by (simp add: janeDoe_def bobLi_def)
  have srt: "sortByScoreDesc [bobLi, janeDoe] = [janeDoe, bobLi]"
    using sc by (simp add: sortByScoreDesc_pair)
  have ne: "(1::nat) \<noteq> 0"
    by simp
  note inst = C10_in_place_sort [of sampleHost "[bobLi, janeDoe]" 0
      "\<lambda>r. if r = 0 then [bobLi, janeDoe] else [bobLi]"]
  have a: "snd (handleDownload sampleHost 0 (\<lambda>r. if r = 0 then [bobLi, janeDoe] else [bobLi])) 0
           = snd (generateCSV sampleHost [bobLi, janeDoe])"
    using inst by simp
  have b: "snd (generateCSV sampleHost [bobLi, janeDoe]) = sortByScoreDesc [bobLi, janeDoe]"
    using inst by blast
  have c: "snd (handleDownload sampleHost 0 (\<lambda>r. if r = 0 then [bobLi, janeDoe] else [bobLi])) 1
           = (\<lambda>r. if r = 0 then [bobLi, janeDoe] else [bobLi]) (1::nat)"
    using inst ne by blast
  show ?thesis
    using a b c srt by simp
qed

section \<open>The batch loop\<close>

lemma calculateFinalScore_idem:
  "calculateFinalScore (calculateFinalScore c w) w = calculateFinalScore c w"
  by (simp add: calculateFinalScore_def Let_def)

lemma length_mapAt [simp]: "length (mapAt i g xs) = length xs"
  by (simp add: mapAt_def)

lemma nth_mapAt:
  "j < length xs \<Longrightarrow> mapAt i g xs ! j = (if j = i then g (xs ! j) else xs ! j)"
  by (simp add: mapAt_def nth_enumerate_eq)

lemma mapAt_split:
  assumes "drop i xs = y # ys"
  shows "mapAt i g xs = take i xs @ g y # ys"
proof (rule nth_equalityI)
  have len: "i < length xs"
    using assms by (metis drop_all list.distinct(1) not_le)
  have y: "xs ! i = y" and ys: "drop (Suc i) xs = ys"
    using assms len by (simp_all flip: Cons_nth_drop_Suc)
  show "length (mapAt i g xs) = length (take i xs @ g y # ys)"
    using len ys [symmetric] by simp
  fix j assume "j < length (mapAt i g xs)"
  then have j: "j < length xs" by simp
  show "mapAt i g xs ! j = (take i xs @ g y # ys) ! j"
  proof (cases "j < i")
    case True
    then show ?thesis using j by (simp add: nth_mapAt nth_append)
  next
    case False
    show ?thesis
    proof (cases "j = i")
      case True
      then show ?thesis using j y len by (simp add: nth_mapAt nth_append)
    next
      case False
      with \<open>\<not> j < i\<close> have gt: "i < j" by simp
      then obtain d where d: "j = Suc i + d"
        by (metis less_iff_Suc_add add_Suc)
      have "ys ! d = xs ! j"
        using ys j d by (metis nth_drop less_or_eq_imp_le Suc_leI len)
      then show ?thesis
        using j gt len d by (simp add: nth_mapAt nth_append)
    qed
  qed
qed

text \<open>What the effects leave alone.\<close>

lemma saveResults_frame [simp]:
  "cvFiles (saveResults s) = cvFiles s"
  "jdFile (saveResults s) = jdFile s"
  "isProcessing (saveResults s) = isProcessing s"
  "currentProcessingIndex (saveResults s) = currentProcessingIndex s"
  by (simp_all add: saveResults_def)

lemma recalculateScores_frame [simp]:
  "cvFiles (recalculateScores h s) = cvFiles s"
  "weights (recalculateScores h s) = weights s"
  "jdFile (recalculateScores h s) = jdFile s"
  "isProcessing (recalculateScores h s) = isProcessing s"
  "currentProcessingIndex (recalculateScores h s) = currentProcessingIndex s"
  by (simp_all add: recalculateScores_def Let_def)

lemma setResults_frame [simp]:
  "cvFiles (setResults h rs s) = cvFiles s"
  "weights (setResults h rs s) = weights s"
  "jdFile (setResults h rs s) = jdFile s"
  "isProcessing (setResults h rs s) = isProcessing s"
  "currentProcessingIndex (setResults h rs s) = currentProcessingIndex s"
  by (simp_all add: setResults_def Let_def)

lemma mapAt_mapAt: "mapAt i g (mapAt i f xs) = mapAt i (\<lambda>x. g (f x)) xs"
  by (rule nth_equalityI) (simp_all add: nth_mapAt)

text \<open>A list of records that were scored with the current weights is a fixed point of
  the recalculation, so \<open>setResults\<close> stores it as it is.\<close>

lemma results_setResults:
  assumes "map (\<lambda>r. calculateFinalScore r (weights s)) rs = rs"
  shows "results (setResults h rs s) = rs"
proof -
  have "recalculateScores h (saveResults (s\<lparr>results := rs\<rparr>)) = saveResults (s\<lparr>results := rs\<rparr>)"
    by (rule recalculateScores_fixed) (simp add: assms)
  then show ?thesis
    by (simp add: setResults_def Let_def)
qed

lemma results_setResults_Nil [simp]: "results (setResults h [] s) = []"
  by (simp add: results_setResults)

lemma analyzeCandidate_not_Inl: "analyzeCandidate h jd jm cv cm \<noteq> Inl e"
  by (simp add: analyzeCandidate_def split: sum.split)

lemma totalWeight_zero_iff:
  assumes "nonNegativeWeights w"
  shows "totalWeight w = 0 \<longleftrightarrow> weightsList w = [0, 0, 0, 0, 0]"
  using assms
  by (auto simp: nonNegativeWeights_def weightsList_def totalWeight_sum add_nonneg_eq_0_iff)

lemma unscored_calculateFinalScore [simp]:
  "unscored (calculateFinalScore c w) = unscored c"
  by (simp add: unscored_def calculateFinalScore_def Let_def)

lemma unscored_candidateOf [simp]:
  "unscored (candidateOf r i 0 Low) = candidateOf r i 0 Low"
  by (simp add: unscored_def candidateOf_def)

lemma id_c_unscored [simp]: "id_c (unscored c) = id_c c"
  by (simp add: unscored_def)

text \<open>The three outcomes of the \<open>try\<close> block.\<close>

lemma tryBlock_Returns:
  "tryBlock h jd jm w cv = Returns c \<longleftrightarrow>
     (\<exists>b r. fileToBase64 h (file_f cv) = Inr b
            \<and> analyzeCandidate h jd jm b (mimeOf (file_f cv)) = Inr (Typed r)
            \<and> c = calculateFinalScore (candidateOf r (id_f cv) 0 Low) w)"
  by (auto simp: tryBlock_def scoreReply_def split: sum.splits parsed.splits)

lemma tryBlock_Throws:
  "is_Throws (tryBlock h jd jm w cv) \<longleftrightarrow>
     isl (fileToBase64 h (file_f cv))
     \<or> (\<exists>b. fileToBase64 h (file_f cv) = Inr b
            \<and> analyzeCandidate h jd jm b (mimeOf (file_f cv)) = Inr NoRatings
            \<and> totalWeight w \<noteq> 0)"
  by (auto simp: tryBlock_def scoreReply_def analyzeCandidate_not_Inl
      split: sum.splits parsed.splits)

lemma tryBlock_Untypable:
  "tryBlock h jd jm w cv = Untypable \<longleftrightarrow>
     (\<exists>b. fileToBase64 h (file_f cv) = Inr b
          \<and> (analyzeCandidate h jd jm b (mimeOf (file_f cv)) = Inr Untyped
              \<or> analyzeCandidate h jd jm b (mimeOf (file_f cv)) = Inr NoRatings
                \<and> totalWeight w = 0))"
  by (auto simp: tryBlock_def scoreReply_def split: sum.splits parsed.splits)

lemma tryBlock_scored:
  "tryBlock h jd jm w cv = Returns c \<Longrightarrow> calculateFinalScore c w = c"
  by (auto simp: tryBlock_Returns calculateFinalScore_idem)

lemma tryBlock_id:
  "tryBlock h jd jm w cv = Returns c \<Longrightarrow> id_c c = id_f cv"
  by (auto simp: tryBlock_Returns candidateOf_def)

lemma tryBlock_placeholder:
  assumes "fileToBase64 h (file_f cv) = Inr b"
    and "analyzeAttempt h jd jm b (mimeOf (file_f cv)) = Inl e"
  shows "tryBlock h jd jm w cv
         = Returns (calculateFinalScore (candidateOf errorPlaceholder (id_f cv) 0 Low) w)"
  using assms by (simp add: tryBlock_def scoreReply_def analyzeCandidate_def)

lemma returned_simps [simp]:
  "returned (Returns v) = Some v"
  "returned (Throws e) = None"
  "returned Untypable = None"
  by (simp_all add: returned_def)

lemma returned_eq_Some: "returned x = Some v \<longleftrightarrow> x = Returns v"
  by (cases x) simp_all

lemma returned_eq_None: "returned x = None \<longleftrightarrow> \<not> is_Returns x"
  by (cases x) (simp_all add: returned_def)

text \<open>One iteration.\<close>

lemma loopBody_None:
  "loopBody h jd jm w i cv s = None \<longleftrightarrow> tryBlock h jd jm w cv = Untypable"
  by (simp add: loopBody_def Let_def split: completion.split)

lemma loopBody_weights:
  "loopBody h jd jm w i cv s = Some s' \<Longrightarrow> weights s' = weights s"
  by (auto simp: loopBody_def markError_def Let_def split: completion.splits)

lemma loopBody_jdFile:
  "loopBody h jd jm w i cv s = Some s' \<Longrightarrow> jdFile s' = jdFile s"
  by (auto simp: loopBody_def markError_def Let_def split: completion.splits)

lemma loopBody_results:
  assumes "loopBody h jd jm w i cv s = Some s'"
    and "weights s = w"
    and "map (\<lambda>r. calculateFinalScore r w) (results s) = results s"
  shows "results s' = results s @ (case returned (tryBlock h jd jm w cv) of None \<Rightarrow> [] | Some c \<Rightarrow> [c])"
proof (cases "tryBlock h jd jm w cv")
  case (Returns c)
  have "map (\<lambda>r. calculateFinalScore r w) (results s @ [c]) = results s @ [c]"
    using assms(3) tryBlock_scored [OF Returns] by simp
  then show ?thesis
    using assms(1,2) Returns by (auto simp: loopBody_def Let_def results_setResults)
next
  case (Throws e)
  then show ?thesis
    using assms(1) by (auto simp: loopBody_def Let_def markError_def)
next
  case Untypable
  then show ?thesis
    using assms(1) by (simp add: loopBody_def Let_def)
qed

lemma loopBody_scored:
  assumes "loopBody h jd jm w i cv s = Some s'"
    and "weights s = w"
    and "map (\<lambda>r. calculateFinalScore r w) (results s) = results s"
  shows "map (\<lambda>r. calculateFinalScore r w) (results s') = results s'"
proof (cases "returned (tryBlock h jd jm w cv)")
  case None
  then show ?thesis
    using assms by (simp add: loopBody_results [OF assms])
next
  case (Some c)
  then have "calculateFinalScore c w = c"
    using tryBlock_scored [of h jd jm w cv c] by (simp add: returned_eq_Some)
  then show ?thesis
    using assms(3) Some by (simp add: loopBody_results [OF assms])
qed

lemma loopBody_cvFiles:
  assumes "loopBody h jd jm w i cv s = Some s'"
  shows "cvFiles s'
         = mapAt i (\<lambda>f. if is_Throws (tryBlock h jd jm w cv)
                         then f\<lparr>status := Error, error := Some ''Failed to analyze''\<rparr>
                         else f\<lparr>status := Completed\<rparr>) (cvFiles s)"
  using assms
  by (cases "tryBlock h jd jm w cv")
     (auto simp: loopBody_def Let_def markError_def mapAt_mapAt)


lemma analysisLoop_None:
  "analysisLoop h jd jm w rest i s = None
   \<longleftrightarrow> (\<exists>cv \<in> set rest. tryBlock h jd jm w cv = Untypable)"
proof (induction rest arbitrary: i s)
  case Nil
  then show ?case by simp
next
  case (Cons cv rest)
  show ?case
  proof (cases "loopBody h jd jm w i cv s")
    case None
    then show ?thesis
      using loopBody_None [of h jd jm w i cv s] by simp
  next
    case (Some s')
    then have "tryBlock h jd jm w cv \<noteq> Untypable"
      using loopBody_None [of h jd jm w i cv s] by simp
    then show ?thesis
      using Some Cons.IH [of "Suc i" s'] by simp
  qed
qed

lemma analysisLoop_weights:
  "analysisLoop h jd jm w rest i s = Some s' \<Longrightarrow> weights s' = weights s"
proof (induction rest arbitrary: i s)
  case Nil
  then show ?case by simp
next
  case (Cons cv rest)
  then obtain m where m: "loopBody h jd jm w i cv s = Some m"
    and r: "analysisLoop h jd jm w rest (Suc i) m = Some s'"
    by (auto split: option.splits)
  show ?case
    using Cons.IH [OF r] loopBody_weights [OF m] by simp
qed

lemma analysisLoop_results:
  assumes "analysisLoop h jd jm w rest i s = Some s'"
    and "weights s = w"
    and "map (\<lambda>r. calculateFinalScore r w) (results s) = results s"
  shows "results s' = results s @ List.map_filter (\<lambda>cv. returned (tryBlock h jd jm w cv)) rest"
  using assms
proof (induction rest arbitrary: i s)
  case Nil
  then show ?case by (simp add: List.map_filter_simps)
next
  case (Cons cv rest)
  then obtain m where m: "loopBody h jd jm w i cv s = Some m"
    and r: "analysisLoop h jd jm w rest (Suc i) m = Some s'"
    by (auto split: option.splits)
  have wm: "weights m = w"
    using loopBody_weights [OF m] Cons.prems(2) by simp
  have "results s' = results m @ List.map_filter (\<lambda>cv. returned (tryBlock h jd jm w cv)) rest"
    by (rule Cons.IH [OF r wm loopBody_scored [OF m Cons.prems(2,3)]])
  then show ?case
    by (simp add: loopBody_results [OF m Cons.prems(2,3)] List.map_filter_simps
        split: option.split)
qed

lemma analysisLoop_cvFiles:
  assumes "analysisLoop h jd jm w rest i s = Some s'"
    and "drop i (cvFiles s) = rest"
  shows "cvFiles s'
         = take i (cvFiles s)
           @ map (\<lambda>f. if is_Throws (tryBlock h jd jm w f)
                       then f\<lparr>status := Error, error := Some ''Failed to analyze''\<rparr>
                       else f\<lparr>status := Completed\<rparr>) rest"
  using assms
proof (induction rest arbitrary: i s)
  case Nil
  then show ?case by simp
next
  case (Cons cv rest)
  let ?g = "\<lambda>f. if is_Throws (tryBlock h jd jm w cv)
                 then f\<lparr>status := Error, error := Some ''Failed to analyze''\<rparr>
                 else f\<lparr>status := Completed\<rparr>"
  obtain m where m: "loopBody h jd jm w i cv s = Some m"
    and r: "analysisLoop h jd jm w rest (Suc i) m = Some s'"
    using Cons.prems(1) by (auto split: option.splits)
  have len: "i < length (cvFiles s)"
    using Cons.prems(2) by (metis drop_all list.distinct(1) not_le)
  have cv': "cvFiles m = take i (cvFiles s) @ ?g cv # rest"
    by (simp only: loopBody_cvFiles [OF m] mapAt_split [OF Cons.prems(2)])
  have dr: "drop (Suc i) (cvFiles m) = rest"
    using len by (simp add: cv')
  have tk: "take (Suc i) (cvFiles m) = take i (cvFiles s) @ [?g cv]"
    using len by (simp add: cv')
  show ?case
    using Cons.IH [OF r dr] by (simp add: tk)
qed

text \<open>\<open>startAnalysis\<close> as a whole.\<close>

lemma startAnalysis_guard:
  "jdFile s = None \<or> cvFiles s = [] \<Longrightarrow> startAnalysis h s = Some s"
  by (auto simp: startAnalysis_def split: option.split)

lemma startAnalysis_run:
  assumes "jdFile s = Some jd" and "cvFiles s \<noteq> []"
  shows "startAnalysis h s
         = map_option (\<lambda>s2. s2\<lparr>isProcessing := False, currentProcessingIndex := - 1\<rparr>)
             (case fileToBase64 h jd of
                Inl e \<Rightarrow> Some (setResults h [] (s\<lparr>isProcessing := True\<rparr>))
              | Inr jdBase64 \<Rightarrow>
                  analysisLoop h jdBase64 (mimeOf jd) (weights s) (cvFiles s) 0
                    (setResults h [] (s\<lparr>isProcessing := True\<rparr>)))"
  using assms by (simp add: startAnalysis_def Let_def)

lemma startAnalysis_None:
  assumes "jdFile s = Some jd" and "cvFiles s \<noteq> []"
  shows "startAnalysis h s = None
         \<longleftrightarrow> (\<exists>b. fileToBase64 h jd = Inr b
                \<and> (\<exists>cv \<in> set (cvFiles s). tryBlock h b (mimeOf jd) (weights s) cv = Untypable))"
  by (cases "fileToBase64 h jd") (simp_all add: startAnalysis_run [OF assms] analysisLoop_None)


lemma startAnalysis_results:
  assumes "jdFile s = Some jd" and "cvFiles s \<noteq> []" and "fileToBase64 h jd = Inr b"
    and "startAnalysis h s = Some s'"
  shows "results s'
         = List.map_filter (\<lambda>cv. returned (tryBlock h b (mimeOf jd) (weights s) cv)) (cvFiles s)"
proof -
  obtain m where m: "analysisLoop h b (mimeOf jd) (weights s) (cvFiles s) 0
                        (setResults h [] (s\<lparr>isProcessing := True\<rparr>)) = Some m"
    and s': "s' = m\<lparr>isProcessing := False, currentProcessingIndex := - 1\<rparr>"
    using assms(4) by (auto simp: startAnalysis_run [OF assms(1,2)] assms(3))
  show ?thesis
    using analysisLoop_results [OF m] by (simp add: s')
qed

lemma startAnalysis_cvFiles:
  assumes "jdFile s = Some jd" and "cvFiles s \<noteq> []" and "fileToBase64 h jd = Inr b"
    and "startAnalysis h s = Some s'"
  shows "cvFiles s'
         = map (\<lambda>f. if is_Throws (tryBlock h b (mimeOf jd) (weights s) f)
                     then f\<lparr>status := Error, error := Some ''Failed to analyze''\<rparr>
                     else f\<lparr>status := Completed\<rparr>) (cvFiles s)"
proof -
  obtain m where m: "analysisLoop h b (mimeOf jd) (weights s) (cvFiles s) 0
                        (setResults h [] (s\<lparr>isProcessing := True\<rparr>)) = Some m"
    and s': "s' = m\<lparr>isProcessing := False, currentProcessingIndex := - 1\<rparr>"
    using assms(4) by (auto simp: startAnalysis_run [OF assms(1,2)] assms(3))
  show ?thesis
    using analysisLoop_cvFiles [OF m] by (simp add: s')
qed

lemma map_map_filter:
  "map f (List.map_filter g xs) = List.map_filter (\<lambda>x. map_option f (g x)) xs"
  by (induction xs) (simp_all add: List.map_filter_simps split: option.split)

lemma ids_returned:
  "map id_c (List.map_filter (\<lambda>cv. returned (tryBlock h jd jm w cv)) fs)
   = map id_f (filter (\<lambda>cv. is_Returns (tryBlock h jd jm w cv)) fs)"
proof (induction fs)
  case Nil
  then show ?case by (simp add: List.map_filter_simps)
next
  case (Cons f fs)
  show ?case
  proof (cases "tryBlock h jd jm w f")
    case (Returns c)
    then show ?thesis
      using Cons.IH tryBlock_id [OF Returns] by (simp add: List.map_filter_simps)
  next
    case (Throws e)
    then show ?thesis
      using Cons.IH by (simp add: List.map_filter_simps)
  next
    case Untypable
    then show ?thesis
      using Cons.IH by (simp add: List.map_filter_simps)
  qed
qed

text \<open>The sample runs.\<close>

lemma sample_fileToBase64:
  "fileToBase64 sampleHost (sampleFile n ''JD'') = Inr (Some ''JD'')"
  "fileToBase64 sampleHost (sampleFile n ''Ann'') = Inr (Some ''Ann'')"
  "fileToBase64 sampleHost (sampleFile n ''bad'') = Inr (Some ''bad'')"
  "fileToBase64 sampleHost (sampleFile n ''Cy'') = Inr (Some ''Cy'')"
  "fileToBase64 sampleHost (sampleFile n ''{}'') = Inr (Some ''{}'')"
  "fileToBase64 sampleHost (sampleFile n untypedReply) = Inr (Some untypedReply)"
  "fileToBase64 sampleHost (sampleFile n ''unreadable'') = Inl ReadError"
  by (simp_all add: fileToBase64_def sampleHost_def sampleFile_def untypedReply_def)

lemma sample_mimeOf:
  "mimeOf (sampleFile ''jd.pdf'' b) = ''application/pdf''"
  "mimeOf (sampleFile ''a.pdf'' b) = ''application/pdf''"
  "mimeOf (sampleFile ''b.pdf'' b) = ''application/pdf''"
  "mimeOf (sampleFile ''c.pdf'' b) = ''application/pdf''"
  by (simp_all add: mimeOf_def endsWith_def sampleFile_def)

lemma sample_analyzeAttempt:
  "analyzeAttempt sampleHost (Some ''JD'') jm (Some ''Ann'') cm
   = Inr (Typed (sampleRaw ''Ann'' sampleRatings))"
  "analyzeAttempt sampleHost (Some ''JD'') jm (Some ''Cy'') cm
   = Inr (Typed (sampleRaw ''Cy'' sampleRatings))"
  "analyzeAttempt sampleHost (Some ''JD'') jm (Some ''bad'') cm = Inl NoResponseFromAI"
  "analyzeAttempt sampleHost (Some ''JD'') jm (Some ''{}'') cm = Inr NoRatings"
  "analyzeAttempt sampleHost (Some ''JD'') jm (Some untypedReply) cm = Inr Untyped"
  by (simp_all add: analyzeAttempt_def sampleHost_def analysisRequest_def untypedReply_def)

lemma totalWeight_DEFAULT_WEIGHTS: "totalWeight DEFAULT_WEIGHTS \<noteq> 0"
  by (simp add: totalWeight_def DEFAULT_WEIGHTS_def)

lemma nonNegativeWeights_DEFAULT_WEIGHTS: "nonNegativeWeights DEFAULT_WEIGHTS"
  by (simp add: nonNegativeWeights_def weightsList_def DEFAULT_WEIGHTS_def)

lemma sample_upload [simp]:
  "file_f (sampleUpload i n b) = sampleFile n b"
  "id_f (sampleUpload i n b) = i"
  "status (sampleUpload i n b) = Pending"
  by (simp_all add: sampleUpload_def)

lemma sample_tryBlock:
  "tryBlock sampleHost (Some ''JD'') jm w (sampleUpload i n ''Ann'')
   = Returns (calculateFinalScore (candidateOf (sampleRaw ''Ann'' sampleRatings) i 0 Low) w)"
  "tryBlock sampleHost (Some ''JD'') jm w (sampleUpload i n ''Cy'')
   = Returns (calculateFinalScore (candidateOf (sampleRaw ''Cy'' sampleRatings) i 0 Low) w)"
  "tryBlock sampleHost (Some ''JD'') jm w (sampleUpload i n ''bad'')
   = Returns (calculateFinalScore (candidateOf errorPlaceholder i 0 Low) w)"
  "tryBlock sampleHost (Some ''JD'') jm w (sampleUpload i n ''unreadable'') = Throws ReadError"
  "tryBlock sampleHost (Some ''JD'') jm DEFAULT_WEIGHTS (sampleUpload i n ''{}'') = Throws TypeError"
  "tryBlock sampleHost (Some ''JD'') jm w (sampleUpload i n untypedReply) = Untypable"
  by (simp_all add: tryBlock_def scoreReply_def sample_fileToBase64 analyzeCandidate_def
      sample_analyzeAttempt totalWeight_DEFAULT_WEIGHTS)

lemma sample_state [simp]:
  "jdFile (sampleState fs rs) = Some (sampleFile ''jd.pdf'' ''JD'')"
  "cvFiles (sampleState fs rs) = fs"
  "weights (sampleState fs rs) = DEFAULT_WEIGHTS"
  "results (sampleState fs rs) = rs"
  by (simp_all add: sampleState_def)

lemma candidateName_calculateFinalScore [simp]:
  "candidateName (calculateFinalScore c w) = candidateName c"
  by (simp add: calculateFinalScore_def Let_def)

lemma sample_run:
  assumes "tryBlock sampleHost (Some ''JD'') ''application/pdf'' DEFAULT_WEIGHTS
             (sampleUpload ''f2'' ''b.pdf'' t) \<noteq> Untypable"
  shows "\<exists>s'. startAnalysis sampleHost (sampleState (sampleBatch t) rs) = Some s'"
proof -
  have jd: "jdFile (sampleState (sampleBatch t) rs) = Some (sampleFile ''jd.pdf'' ''JD'')"
    and ne: "cvFiles (sampleState (sampleBatch t) rs) \<noteq> []"
    by (simp_all add: sampleBatch_def)
  have "\<not> (\<exists>b. fileToBase64 sampleHost (sampleFile ''jd.pdf'' ''JD'') = Inr b
              \<and> (\<exists>cv \<in> set (cvFiles (sampleState (sampleBatch t) rs)).
                    tryBlock sampleHost b (mimeOf (sampleFile ''jd.pdf'' ''JD''))
                      (weights (sampleState (sampleBatch t) rs)) cv = Untypable))"
    using assms
    by (simp add: sample_fileToBase64 sample_mimeOf sampleBatch_def sample_tryBlock)
  then have "startAnalysis sampleHost (sampleState (sampleBatch t) rs) \<noteq> None"
    by (simp only: startAnalysis_None [OF jd ne, of sampleHost] not_False_eq_True)
  then show ?thesis
    by blast
qed

text \<open>
  C4, as stated, fails when what fails for a file is the call to the AI collaborator:
  \<open>analyzeCandidate\<close> absorbs the failure, so the inner \<open>catch\<close> of the loop is not
  reached.  In the sample run the collaborator has no text for the second of three
  files; all three files end \<open>completed\<close> and the result list holds three records, the
  second being the placeholder.
\<close>

theorem C4_ai_failure_counterexample:
  "analyzeAttempt sampleHost (Some ''JD'') ''application/pdf'' (Some ''bad'') ''application/pdf''
     = Inl NoResponseFromAI
   \<and> startAnalysis sampleHost (sampleState (sampleBatch ''bad'') []) \<noteq> None
   \<and> map status (cvFiles (the (startAnalysis sampleHost (sampleState (sampleBatch ''bad'') []))))
     = [Completed, Completed, Completed]
   \<and> map candidateName (results (the (startAnalysis sampleHost (sampleState (sampleBatch ''bad'') []))))
     = [''Ann'', ''Unknown Candidate (Parse Error)'', ''Cy'']
   \<and> map status (cvFiles (the (startAnalysis sampleHost (sampleState (sampleBatch ''bad'') []))))
     \<noteq> [Completed, Error, Completed]
   \<and> length (results (the (startAnalysis sampleHost (sampleState (sampleBatch ''bad'') []))))
     \<noteq> 2"
proof -
  let ?s = "sampleState (sampleBatch ''bad'') []"
  have jd: "jdFile ?s = Some (sampleFile ''jd.pdf'' ''JD'')" and ne: "cvFiles ?s \<noteq> []"
    by (simp_all add: sampleBatch_def)
  have rd: "fileToBase64 sampleHost (sampleFile ''jd.pdf'' ''JD'') = Inr (Some ''JD'')"
    by (rule sample_fileToBase64)
  obtain s' where run: "startAnalysis sampleHost ?s = Some s'"
    using sample_run [of "''bad''" "[]"] by (auto simp: sample_tryBlock)
  have st: "map status (cvFiles s') = [Completed, Completed, Completed]"
    by (simp add: startAnalysis_cvFiles [OF jd ne rd run] sampleBatch_def sample_mimeOf
        sample_tryBlock)
  have rs: "map candidateName (results s')
            = [''Ann'', ''Unknown Candidate (Parse Error)'', ''Cy'']"
    by (simp add: startAnalysis_results [OF jd ne rd run] sampleBatch_def sample_mimeOf
        sample_tryBlock List.map_filter_simps candidateOf_def sampleRaw_def errorPlaceholder_def)
  have "length (map candidateName (results s')) = 3"
    by (simp only: rs) simp
  then have len: "length (results s') = 3"
    by simp
  show ?thesis
    using st rs len by (simp add: run sample_analyzeAttempt)
qed

text \<open>
  C4 (as amended).  Take a batch run of \<open>startAnalysis\<close> whose job description can be read,
  with non-negative weights, and in which every reply of the AI that is stored has the
  declared shape (the run of the model returns a state).  The processing of a file fails
  when its \<open>try\<close> block throws, and it throws in exactly two cases: the file cannot be read
  (\<open>fileToBase64\<close> rejects), or the reply of the AI parses to a value without \<open>ratings\<close>
  and the weights are not all zero, so that the scoring throws.  A failure of the call to
  the AI collaborator is none of them: \<open>analyzeCandidate\<close> returns the placeholder, and
  the file succeeds with the placeholder as its record.  A file whose processing fails
  ends with the status \<open>error\<close> and the message \<open>Failed to analyze\<close>; the loop goes on with
  the next file; every other file ends with the status \<open>completed\<close> and contributes
  one record, made of the reply for this file and the file's id, and the records are in
  upload order.  For three files of which exactly the second fails, the end state of the statuses
  is completed, error, completed, and the result list holds exactly the two records of the
  first and the third file, in this order.  (Scores and labels are left out of the
  comparison of records: \<open>unscored\<close>.)
\<close>

theorem C4_failure_continues:
  assumes "jdFile s = Some jd"
    and "fileToBase64 h jd = Inr jdBase64"
    and "cvFiles s \<noteq> []"
    and "nonNegativeWeights (weights s)"
    and "startAnalysis h s = Some s'"
  shows "map status (cvFiles s')
         = map (\<lambda>f. if is_Throws (tryBlock h jdBase64 (mimeOf jd) (weights s) f)
                     then Error else Completed) (cvFiles s)
       \<and> (\<forall>i < length (cvFiles s).
             is_Throws (tryBlock h jdBase64 (mimeOf jd) (weights s) (cvFiles s ! i))
             \<longrightarrow> error (cvFiles s' ! i) = Some ''Failed to analyze'')
       \<and> (\<forall>f \<in> set (cvFiles s).
             is_Throws (tryBlock h jdBase64 (mimeOf jd) (weights s) f)
             \<longleftrightarrow> isl (fileToBase64 h (file_f f))
                  \<or> (\<exists>b. fileToBase64 h (file_f f) = Inr b
                         \<and> analyzeCandidate h jdBase64 (mimeOf jd) b (mimeOf (file_f f))
                           = Inr NoRatings
                         \<and> weightsList (weights s) \<noteq> [0, 0, 0, 0, 0]))
       \<and> (\<forall>f \<in> set (cvFiles s).
             \<not> is_Throws (tryBlock h jdBase64 (mimeOf jd) (weights s) f)
             \<longrightarrow> (\<exists>b r. fileToBase64 h (file_f f) = Inr b
                        \<and> analyzeCandidate h jdBase64 (mimeOf jd) b (mimeOf (file_f f))
                          = Inr (Typed r)
                        \<and> map_option unscored
                            (returned (tryBlock h jdBase64 (mimeOf jd) (weights s) f))
                          = Some (candidateOf r (id_f f) 0 Low)))
       \<and> (\<forall>f \<in> set (cvFiles s). \<forall>b e.
             fileToBase64 h (file_f f) = Inr b
             \<and> analyzeAttempt h jdBase64 (mimeOf jd) b (mimeOf (file_f f)) = Inl e
             \<longrightarrow> \<not> is_Throws (tryBlock h jdBase64 (mimeOf jd) (weights s) f)
                 \<and> map_option unscored
                     (returned (tryBlock h jdBase64 (mimeOf jd) (weights s) f))
                   = Some (candidateOf errorPlaceholder (id_f f) 0 Low))
       \<and> map unscored (results s')
         = List.map_filter
             (\<lambda>f. map_option unscored (returned (tryBlock h jdBase64 (mimeOf jd) (weights s) f)))
             (cvFiles s)
       \<and> map id_c (results s')
         = map id_f (filter (\<lambda>f. \<not> is_Throws (tryBlock h jdBase64 (mimeOf jd) (weights s) f))
                       (cvFiles s))
       \<and> (cvFiles s = [f1, f2, f3]
            \<and> \<not> is_Throws (tryBlock h jdBase64 (mimeOf jd) (weights s) f1)
            \<and> is_Throws (tryBlock h jdBase64 (mimeOf jd) (weights s) f2)
            \<and> \<not> is_Throws (tryBlock h jdBase64 (mimeOf jd) (weights s) f3)
            \<longrightarrow> map status (cvFiles s') = [Completed, Error, Completed]
              \<and> length (results s') = 2
              \<and> map id_c (results s') = [id_f f1, id_f f3])"
proof -
  let ?T = "tryBlock h jdBase64 (mimeOf jd) (weights s)"
  let ?fin = "\<lambda>f. if is_Throws (?T f)
                   then f\<lparr>status := Error, error := Some ''Failed to analyze''\<rparr>
                   else f\<lparr>status := Completed\<rparr>"
  have typed: "?T f \<noteq> Untypable" if "f \<in> set (cvFiles s)" for f
    using startAnalysis_None [OF assms(1,3), of h] assms(2,5) that by auto
  have ret: "\<not> is_Throws (?T f) \<longleftrightarrow> is_Returns (?T f)" if "f \<in> set (cvFiles s)" for f
    using typed [OF that] by (cases "?T f") simp_all
  have cv: "cvFiles s' = map ?fin (cvFiles s)"
    by (rule startAnalysis_cvFiles [OF assms(1,3,2,5)])
  have st: "map status (cvFiles s')
            = map (\<lambda>f. if is_Throws (?T f) then Error else Completed) (cvFiles s)"
    by (simp add: cv)
  have er: "\<forall>i < length (cvFiles s). is_Throws (?T (cvFiles s ! i))
            \<longrightarrow> error (cvFiles s' ! i) = Some ''Failed to analyze''"
    by (simp add: cv)
  have th: "\<forall>f \<in> set (cvFiles s).
             is_Throws (?T f)
             \<longleftrightarrow> isl (fileToBase64 h (file_f f))
                  \<or> (\<exists>b. fileToBase64 h (file_f f) = Inr b
                         \<and> analyzeCandidate h jdBase64 (mimeOf jd) b (mimeOf (file_f f))
                           = Inr NoRatings
                         \<and> weightsList (weights s) \<noteq> [0, 0, 0, 0, 0])"
    by (simp only: tryBlock_Throws totalWeight_zero_iff [OF assms(4)]) simp
  have ok: "\<forall>f \<in> set (cvFiles s).
             \<not> is_Throws (?T f)
             \<longrightarrow> (\<exists>b r. fileToBase64 h (file_f f) = Inr b
                        \<and> analyzeCandidate h jdBase64 (mimeOf jd) b (mimeOf (file_f f))
                          = Inr (Typed r)
                        \<and> map_option unscored (returned (?T f))
                          = Some (candidateOf r (id_f f) 0 Low))"
  proof (intro ballI impI)
    fix f
    assume f: "f \<in> set (cvFiles s)" and "\<not> is_Throws (?T f)"
    then obtain c where c: "?T f = Returns c"
      using ret [OF f] by (cases "?T f") simp_all
    then obtain b r where "fileToBase64 h (file_f f) = Inr b"
      and "analyzeCandidate h jdBase64 (mimeOf jd) b (mimeOf (file_f f)) = Inr (Typed r)"
      and "c = calculateFinalScore (candidateOf r (id_f f) 0 Low) (weights s)"
      using tryBlock_Returns [of h jdBase64 "mimeOf jd" "weights s" f c] by blast
    then show "\<exists>b r. fileToBase64 h (file_f f) = Inr b
                        \<and> analyzeCandidate h jdBase64 (mimeOf jd) b (mimeOf (file_f f))
                          = Inr (Typed r)
                        \<and> map_option unscored (returned (?T f))
                          = Some (candidateOf r (id_f f) 0 Low)"
      using c by simp
  qed
  have ph: "\<forall>f \<in> set (cvFiles s). \<forall>b e.
             fileToBase64 h (file_f f) = Inr b
             \<and> analyzeAttempt h jdBase64 (mimeOf jd) b (mimeOf (file_f f)) = Inl e
             \<longrightarrow> \<not> is_Throws (?T f)
                 \<and> map_option unscored (returned (?T f))
                   = Some (candidateOf errorPlaceholder (id_f f) 0 Low)"
    by (auto simp: tryBlock_placeholder)
  have rs: "results s' = List.map_filter (\<lambda>f. returned (?T f)) (cvFiles s)"
    by (rule startAnalysis_results [OF assms(1,3,2,5)])
  have un: "map unscored (results s')
            = List.map_filter (\<lambda>f. map_option unscored (returned (?T f))) (cvFiles s)"
    by (simp only: rs map_map_filter)
  have "filter (\<lambda>f. is_Returns (?T f)) (cvFiles s) = filter (\<lambda>f. \<not> is_Throws (?T f)) (cvFiles s)"
    using ret by (intro filter_cong) simp_all
  then have ids: "map id_c (results s')
                  = map id_f (filter (\<lambda>f. \<not> is_Throws (?T f)) (cvFiles s))"
    by (simp only: rs ids_returned)
  have three: "cvFiles s = [f1, f2, f3]
            \<and> \<not> is_Throws (?T f1) \<and> is_Throws (?T f2) \<and> \<not> is_Throws (?T f3)
            \<longrightarrow> map status (cvFiles s') = [Completed, Error, Completed]
              \<and> length (results s') = 2
              \<and> map id_c (results s') = [id_f f1, id_f f3]"
  proof (intro impI)
    assume a: "cvFiles s = [f1, f2, f3]
            \<and> \<not> is_Throws (?T f1) \<and> is_Throws (?T f2) \<and> \<not> is_Throws (?T f3)"
    have i: "map id_c (results s') = [id_f f1, id_f f3]"
      using a by (simp add: ids)
    have "length (map id_c (results s')) = 2"
      by (simp only: i) simp
    then have "length (results s') = 2"
      by simp
    then show "map status (cvFiles s') = [Completed, Error, Completed]
              \<and> length (results s') = 2
              \<and> map id_c (results s') = [id_f f1, id_f f3]"
      using a i by (simp add: st)
  qed
  show ?thesis
    using st er th ok ph un ids three by blast
qed

theorem C4_failure_continues_witness:
  "jdFile (sampleState (sampleBatch ''unreadable'') []) = Some (sampleFile ''jd.pdf'' ''JD'')
   \<and> fileToBase64 sampleHost (sampleFile ''jd.pdf'' ''JD'') = Inr (Some ''JD'')
   \<and> cvFiles (sampleState (sampleBatch ''unreadable'') []) \<noteq> []
   \<and> nonNegativeWeights (weights (sampleState (sampleBatch ''unreadable'') []))
   \<and> startAnalysis sampleHost (sampleState (sampleBatch ''unreadable'') []) \<noteq> None
   \<and> isl (fileToBase64 sampleHost (sampleFile ''b.pdf'' ''unreadable''))
   \<and> map status (cvFiles (the (startAnalysis sampleHost
        (sampleState (sampleBatch ''unreadable'') []))))
     = [Completed, Error, Completed]
   \<and> error (cvFiles (the (startAnalysis sampleHost
        (sampleState (sampleBatch ''unreadable'') []))) ! 1)
     = Some ''Failed to analyze''
   \<and> length (results (the (startAnalysis sampleHost
        (sampleState (sampleBatch ''unreadable'') [])))) = 2
   \<and> map id_c (results (the (startAnalysis sampleHost
        (sampleState (sampleBatch ''unreadable'') [])))) = [''f1'', ''f3'']
   \<and> startAnalysis sampleHost (sampleState (sampleBatch ''{}'') []) \<noteq> None
   \<and> analyzeCandidate sampleHost (Some ''JD'') ''application/pdf'' (Some ''{}'') ''application/pdf''
     = Inr NoRatings
   \<and> map status (cvFiles (the (startAnalysis sampleHost (sampleState (sampleBatch ''{}'') []))))
     = [Completed, Error, Completed]
   \<and> error (cvFiles (the (startAnalysis sampleHost (sampleState (sampleBatch ''{}'') []))) ! 1)
     = Some ''Failed to analyze''
   \<and> length (results (the (startAnalysis sampleHost (sampleState (sampleBatch ''{}'') [])))) = 2
   \<and> map id_c (results (the (startAnalysis sampleHost (sampleState (sampleBatch ''{}'') []))))
     = [''f1'', ''f3'']"
proof -
  have rd: "fileToBase64 sampleHost (sampleFile ''jd.pdf'' ''JD'') = Inr (Some ''JD'')"
    by (rule sample_fileToBase64)
  have main: "startAnalysis sampleHost (sampleState (sampleBatch t) []) \<noteq> None
      \<and> map status (cvFiles (the (startAnalysis sampleHost (sampleState (sampleBatch t) []))))
        = [Completed, Error, Completed]
      \<and> error (cvFiles (the (startAnalysis sampleHost (sampleState (sampleBatch t) []))) ! 1)
        = Some ''Failed to analyze''
      \<and> length (results (the (startAnalysis sampleHost (sampleState (sampleBatch t) [])))) = 2
      \<and> map id_c (results (the (startAnalysis sampleHost (sampleState (sampleBatch t) []))))
        = [''f1'', ''f3'']"
    if t: "tryBlock sampleHost (Some ''JD'') ''application/pdf'' DEFAULT_WEIGHTS
             (sampleUpload ''f2'' ''b.pdf'' t) = Throws e" for t e
  proof -
    let ?s = "sampleState (sampleBatch t) []"
    let ?T = "tryBlock sampleHost (Some ''JD'') (mimeOf (sampleFile ''jd.pdf'' ''JD'')) (weights ?s)"
    have jd: "jdFile ?s = Some (sampleFile ''jd.pdf'' ''JD'')"
      by simp
    have ne: "cvFiles ?s \<noteq> []"
      by (simp add: sampleBatch_def)
    have nn: "nonNegativeWeights (weights ?s)"
      by (simp add: nonNegativeWeights_DEFAULT_WEIGHTS)
    obtain s' where run: "startAnalysis sampleHost ?s = Some s'"
      using sample_run [of t "[]"] t by auto
    note inst = C4_failure_continues [OF jd rd ne nn run,
        of "sampleUpload ''f1'' ''a.pdf'' ''Ann''" "sampleUpload ''f2'' ''b.pdf'' t"
           "sampleUpload ''f3'' ''c.pdf'' ''Cy''"]
    have i: "(1::nat) < length (cvFiles ?s)"
      by (simp add: sampleBatch_def)
    have n: "is_Throws (?T (cvFiles ?s ! 1))"
      by (simp add: sampleBatch_def sample_mimeOf t)
    have e: "error (cvFiles s' ! 1) = Some ''Failed to analyze''"
      by (rule inst [THEN conjunct2, THEN conjunct1, rule_format, OF i n])
    have prem: "cvFiles ?s = [sampleUpload ''f1'' ''a.pdf'' ''Ann'', sampleUpload ''f2'' ''b.pdf'' t,
                             sampleUpload ''f3'' ''c.pdf'' ''Cy'']
        \<and> \<not> is_Throws (?T (sampleUpload ''f1'' ''a.pdf'' ''Ann''))
        \<and> is_Throws (?T (sampleUpload ''f2'' ''b.pdf'' t))
        \<and> \<not> is_Throws (?T (sampleUpload ''f3'' ''c.pdf'' ''Cy''))"
      by (simp add: sampleBatch_def sample_mimeOf sample_tryBlock t)
    have three: "map status (cvFiles s') = [Completed, Error, Completed]
         \<and> length (results s') = 2
         \<and> map id_c (results s')
             = [id_f (sampleUpload ''f1'' ''a.pdf'' ''Ann''), id_f (sampleUpload ''f3'' ''c.pdf'' ''Cy'')]"
      by (rule inst [THEN conjunct2, THEN conjunct2, THEN conjunct2, THEN conjunct2,
            THEN conjunct2, THEN conjunct2, THEN conjunct2, THEN mp, OF prem])
    show ?thesis
      using three e by (simp add: run)
  qed
  have a: "analyzeCandidate sampleHost (Some ''JD'') ''application/pdf'' (Some ''{}'') ''application/pdf''
           = Inr NoRatings"
    by (simp add: analyzeCandidate_def sample_analyzeAttempt)
  show ?thesis
    using main [OF sample_tryBlock(4)] main [OF sample_tryBlock(5)] rd a
    by (simp add: sampleBatch_def nonNegativeWeights_DEFAULT_WEIGHTS sample_fileToBase64)
qed




section \<open>Persistence\<close>

lemma keys_distinct [simp]: "WEIGHTS_KEY \<noteq> RESULTS_KEY" "RESULTS_KEY \<noteq> WEIGHTS_KEY"
  by (simp_all add: WEIGHTS_KEY_def RESULTS_KEY_def)

lemma localStorage_saveWeights:
  "localStorage (saveWeights s) = (localStorage s)(WEIGHTS_KEY \<mapsto> WeightsBlob (weights s))"
  by (simp add: saveWeights_def)

lemma localStorage_saveResults:
  "localStorage (saveResults s)
   = (if results s = [] then localStorage s
      else (localStorage s)(RESULTS_KEY \<mapsto> ResultsBlob (results s)))"
  by (simp add: saveResults_def)

lemma recalculateScores_cases:
  "recalculateScores h s = s
   \<or> (results s \<noteq> []
      \<and> recalculateScores h s
        = saveResults (s\<lparr>results := map (\<lambda>r. calculateFinalScore r (weights s)) (results s)\<rparr>))"
  by (auto simp: recalculateScores_def Let_def)

text \<open>The invariant of the result list and its blob: a non-empty list is the one stored.\<close>

lemma saveResults_synced:
  "results (saveResults s) \<noteq> [] \<longrightarrow>
   localStorage (saveResults s) RESULTS_KEY = Some (ResultsBlob (results (saveResults s)))"
  by (simp add: saveResults_def)

lemma recalculateScores_synced:
  assumes "results s \<noteq> [] \<longrightarrow> localStorage s RESULTS_KEY = Some (ResultsBlob (results s))"
  shows "results (recalculateScores h s) \<noteq> [] \<longrightarrow>
         localStorage (recalculateScores h s) RESULTS_KEY
         = Some (ResultsBlob (results (recalculateScores h s)))"
  using assms recalculateScores_cases [of h s] saveResults_synced
  by metis

lemma setResults_synced:
  "results (setResults h rs s) \<noteq> [] \<longrightarrow>
   localStorage (setResults h rs s) RESULTS_KEY = Some (ResultsBlob (results (setResults h rs s)))"
  unfolding setResults_def Let_def
  by (simp only: if_distrib [of results] if_distrib [of localStorage] split: if_split)
     (metis recalculateScores_synced saveResults_synced)

lemma results_recalculateScores_Nil [simp]:
  "results (recalculateScores h s) = [] \<longleftrightarrow> results s = []"
  using recalculateScores_cases [of h s] by (auto simp: recalculateScores_def Let_def)

lemma results_setResults_eq_Nil [simp]:
  "results (setResults h rs s) = [] \<longleftrightarrow> rs = []"
  by (simp add: setResults_def Let_def)

lemma localStorage_setResults_Nil [simp]:
  "localStorage (setResults h [] s) = localStorage s"
  by (simp add: setResults_def Let_def recalculateScores_def saveResults_def)

lemma weights_setWeights [simp]: "weights (setWeights h w s) = w"
  by (simp add: setWeights_def)

text \<open>Which keys an operation can write.\<close>

lemma recalculateScores_other_keys:
  "k \<noteq> RESULTS_KEY \<Longrightarrow> localStorage (recalculateScores h s) k = localStorage s k"
  using recalculateScores_cases [of h s] by (auto simp: localStorage_saveResults)

lemma setResults_other_keys:
  "k \<noteq> RESULTS_KEY \<Longrightarrow> localStorage (setResults h rs s) k = localStorage s k"
  by (simp add: setResults_def Let_def recalculateScores_other_keys localStorage_saveResults)

lemma setWeights_other_keys:
  "k \<noteq> RESULTS_KEY \<Longrightarrow> k \<noteq> WEIGHTS_KEY \<Longrightarrow>
   localStorage (setWeights h w s) k = localStorage s k"
  by (simp add: setWeights_def recalculateScores_other_keys localStorage_saveWeights)

lemma localStorage_setWeights_weights:
  "localStorage (setWeights h w s) WEIGHTS_KEY = Some (WeightsBlob w)"
  by (simp add: setWeights_def recalculateScores_other_keys localStorage_saveWeights)

lemma setWeights_results_changed:
  assumes "results (setWeights h w s) \<noteq> results s"
  shows "localStorage (setWeights h w s) RESULTS_KEY
         = Some (ResultsBlob (results (setWeights h w s)))"
proof -
  let ?s = "saveWeights (s\<lparr>weights := w\<rparr>)"
  have "recalculateScores h ?s \<noteq> ?s"
    using assms by (auto simp: setWeights_def)
  then have "results ?s \<noteq> []" and "recalculateScores h ?s
        = saveResults (?s\<lparr>results := map (\<lambda>r. calculateFinalScore r (weights ?s)) (results ?s)\<rparr>)"
    using recalculateScores_cases [of h ?s] by auto
  then show ?thesis
    by (simp add: setWeights_def localStorage_saveResults)
qed

text \<open>What each setter writes, exactly.\<close>

lemma localStorage_recalculateScores:
  "localStorage (recalculateScores h s)
   = (if results (recalculateScores h s) = results s then localStorage s
      else (localStorage s)(RESULTS_KEY \<mapsto> ResultsBlob (results (recalculateScores h s))))"
proof -
  let ?updated = "map (\<lambda>r. calculateFinalScore r (weights s)) (results s)"
  have same: "join '','' (map (\<lambda>r. numToString h (finalScore r)) ?updated)
              = join '','' (map (\<lambda>r. numToString h (finalScore r)) (results s))"
    if "?updated = results s"
    by (simp only: that)
  show ?thesis
  proof (cases "recalculateScores h s = s")
    case True
    then show ?thesis
      by simp
  next
    case False
    then have ne: "results s \<noteq> []"
      and r: "recalculateScores h s = saveResults (s\<lparr>results := ?updated\<rparr>)"
      using recalculateScores_cases [of h s] by auto
    have "join '','' (map (\<lambda>r. numToString h (finalScore r)) (results s))
          \<noteq> join '','' (map (\<lambda>r. numToString h (finalScore r)) ?updated)"
      using False ne by (auto simp: recalculateScores_def Let_def split: if_splits)
    then have "?updated \<noteq> results s"
      using same by (metis (no_types))
    then show ?thesis
      using ne by (simp add: r localStorage_saveResults)
  qed
qed

lemma localStorage_setWeights:
  "localStorage (setWeights h w s)
   = (if results (setWeights h w s) = results s
      then (localStorage s)(WEIGHTS_KEY \<mapsto> WeightsBlob w)
      else (localStorage s)(WEIGHTS_KEY \<mapsto> WeightsBlob w,
                             RESULTS_KEY \<mapsto> ResultsBlob (results (setWeights h w s))))"
  using localStorage_recalculateScores [of h "saveWeights (s\<lparr>weights := w\<rparr>)"]
  by (simp add: setWeights_def localStorage_saveWeights)

lemma localStorage_setResults:
  "localStorage (setResults h rs s)
   = (if rs = [] then localStorage s
      else (localStorage s)(RESULTS_KEY \<mapsto> ResultsBlob (results (setResults h rs s))))"
  using localStorage_recalculateScores [of h "saveResults (s\<lparr>results := rs\<rparr>)"]
  by (auto simp: setResults_def Let_def localStorage_saveResults)

lemma localStorage_clearAllData:
  "localStorage (clearAllData h True s) = (localStorage s)(RESULTS_KEY := None)"
  by (simp add: clearAllData_def Let_def)

lemma results_clearAllData: "results (clearAllData h True s) = []"
  by (simp add: clearAllData_def Let_def)

lemma clearAllData_False: "clearAllData h False s = s"
  by (simp add: clearAllData_def)

text \<open>The download changes the order of the list in memory and writes nothing.\<close>

lemma downloadReport_state:
  "snd (downloadReport h s) = s\<lparr>results := sortByScoreDesc (results s)\<rparr>"
proof (cases "results s")
  case Nil
  then have "s\<lparr>results := sortByScoreDesc (results s)\<rparr> = s"
    by (simp add: sortByScoreDesc_def)
  then show ?thesis
    using Nil by (simp add: downloadReport_def)
next
  case (Cons c cs)
  then show ?thesis
    by (simp add: downloadReport_def handleDownload_def case_prod_beta generateCSV_array)
qed

text \<open>The invariant of a run: the storage is the one of the start, with the result list
  written over the results key once the list is not empty.\<close>

lemma loopBody_storage_inv:
  assumes "loopBody h jd jm w i cv s = Some s'"
    and "localStorage s
         = (if results s = [] then st else st(RESULTS_KEY \<mapsto> ResultsBlob (results s)))"
  shows "localStorage s'
         = (if results s' = [] then st else st(RESULTS_KEY \<mapsto> ResultsBlob (results s')))"
proof (cases "tryBlock h jd jm w cv")
  case (Returns c)
  let ?s2 = "s\<lparr>currentProcessingIndex := int i,
               cvFiles := mapAt i (\<lambda>f. f\<lparr>status := Processing\<rparr>) (cvFiles s)\<rparr>"
  have s': "s' = (setResults h (results s @ [c]) ?s2)
                   \<lparr>cvFiles := mapAt i (\<lambda>f. f\<lparr>status := Completed\<rparr>)
                      (cvFiles (setResults h (results s @ [c]) ?s2))\<rparr>"
    using assms(1) Returns by (simp add: loopBody_def Let_def)
  have ne: "results s' \<noteq> []"
    by (simp add: s')
  have "localStorage s' = (localStorage s)(RESULTS_KEY \<mapsto> ResultsBlob (results s'))"
    by (simp add: s' localStorage_setResults)
  then show ?thesis
    using ne by (simp add: assms(2))
next
  case (Throws e)
  then show ?thesis
    using assms by (auto simp: loopBody_def Let_def markError_def)
next
  case Untypable
  then show ?thesis
    using assms(1) by (simp add: loopBody_def Let_def)
qed

lemma analysisLoop_storage_inv:
  assumes "analysisLoop h jd jm w rest i s = Some s'"
    and "localStorage s
         = (if results s = [] then st else st(RESULTS_KEY \<mapsto> ResultsBlob (results s)))"
  shows "localStorage s'
         = (if results s' = [] then st else st(RESULTS_KEY \<mapsto> ResultsBlob (results s')))"
  using assms
proof (induction rest arbitrary: i s)
  case Nil
  then show ?case by simp
next
  case (Cons cv rest)
  obtain m where m: "loopBody h jd jm w i cv s = Some m"
    and r: "analysisLoop h jd jm w rest (Suc i) m = Some s'"
    using Cons.prems(1) by (auto split: option.splits)
  show ?case
    by (rule Cons.IH [OF r loopBody_storage_inv [OF m Cons.prems(2)]])
qed

lemma localStorage_startAnalysis:
  assumes "jdFile s \<noteq> None" and "cvFiles s \<noteq> []" and "startAnalysis h s = Some s'"
  shows "localStorage s'
         = (if results s' = [] then localStorage s
            else (localStorage s)(RESULTS_KEY \<mapsto> ResultsBlob (results s')))"
proof -
  let ?start = "setResults h [] (s\<lparr>isProcessing := True\<rparr>)"
  obtain jd where jd: "jdFile s = Some jd"
    using assms(1) by auto
  have inv: "localStorage ?start
             = (if results ?start = [] then localStorage s
                else (localStorage s)(RESULTS_KEY \<mapsto> ResultsBlob (results ?start)))"
    by simp
  show ?thesis
  proof (cases "fileToBase64 h jd")
    case (Inl e)
    then have "s' = ?start\<lparr>isProcessing := False, currentProcessingIndex := - 1\<rparr>"
      using assms(3) by (auto simp: startAnalysis_run [OF jd assms(2)])
    then show ?thesis
      by simp
  next
    case (Inr b)
    then obtain m where m: "analysisLoop h b (mimeOf jd) (weights s) (cvFiles s) 0 ?start = Some m"
      and s': "s' = m\<lparr>isProcessing := False, currentProcessingIndex := - 1\<rparr>"
      using assms(3) by (auto simp: startAnalysis_run [OF jd assms(2)])
    show ?thesis
      using analysisLoop_storage_inv [OF m inv] by (simp add: s')
  qed
qed

text \<open>Only \<open>mount\<close> reads the storage: the in-memory part of the state after any other
  operation is determined by the in-memory part before it.\<close>

lemma memory_eq_iff:
  "memory s = memory t \<longleftrightarrow>
     jdFile s = jdFile t \<and> cvFiles s = cvFiles t \<and> weights s = weights t
     \<and> isProcessing s = isProcessing t \<and> results s = results t
     \<and> currentProcessingIndex s = currentProcessingIndex t"
  by (cases s, cases t) (auto simp: memory_def)

lemma memory_memory [simp]: "memory (memory s) = memory s"
  by (simp add: memory_def)

lemma saveWeights_memory:
  "memory s = memory t \<Longrightarrow> memory (saveWeights s) = memory (saveWeights t)"
  by (simp add: memory_eq_iff saveWeights_def)

lemma saveResults_memory:
  "memory s = memory t \<Longrightarrow> memory (saveResults s) = memory (saveResults t)"
  by (simp add: memory_eq_iff saveResults_def)

lemma recalculateScores_memory:
  "memory s = memory t \<Longrightarrow> memory (recalculateScores h s) = memory (recalculateScores h t)"
  by (simp add: memory_eq_iff recalculateScores_def saveResults_def Let_def)

lemma setResults_memory:
  assumes "memory s = memory t"
  shows "memory (setResults h rs s) = memory (setResults h rs t)"
proof -
  have r: "results s = results t"
    using assms by (simp add: memory_eq_iff)
  have "memory (s\<lparr>results := rs\<rparr>) = memory (t\<lparr>results := rs\<rparr>)"
    using assms by (simp add: memory_eq_iff)
  then have sv: "memory (saveResults (s\<lparr>results := rs\<rparr>)) = memory (saveResults (t\<lparr>results := rs\<rparr>))"
    by (rule saveResults_memory)
  then have rc: "memory (recalculateScores h (saveResults (s\<lparr>results := rs\<rparr>)))
               = memory (recalculateScores h (saveResults (t\<lparr>results := rs\<rparr>)))"
    by (rule recalculateScores_memory)
  show ?thesis
    using sv rc by (simp add: setResults_def Let_def r)
qed

lemma setWeights_memory:
  assumes "memory s = memory t"
  shows "memory (setWeights h w s) = memory (setWeights h w t)"
proof -
  have "memory (s\<lparr>weights := w\<rparr>) = memory (t\<lparr>weights := w\<rparr>)"
    using assms by (simp add: memory_eq_iff)
  then have "memory (saveWeights (s\<lparr>weights := w\<rparr>)) = memory (saveWeights (t\<lparr>weights := w\<rparr>))"
    by (rule saveWeights_memory)
  then show ?thesis
    unfolding setWeights_def by (rule recalculateScores_memory)
qed

lemma clearAllData_memory:
  assumes "memory s = memory t"
  shows "memory (clearAllData h b s) = memory (clearAllData h b t)"
proof (cases b)
  case True
  have "memory (setResults h [] s) = memory (setResults h [] t)"
    using assms by (rule setResults_memory)
  then show ?thesis
    using True by (simp add: clearAllData_def Let_def memory_eq_iff)
next
  case False
  then show ?thesis using assms by (simp add: clearAllData_def)
qed

lemma memory_storage [simp]: "memory (s\<lparr>localStorage := st\<rparr>) = memory s"
  by (simp add: memory_def)

lemma memory_eqD: "memory s = memory t \<Longrightarrow> t = s\<lparr>localStorage := localStorage t\<rparr>"
  by (cases s, cases t) (simp add: memory_def)

lemma results_setResults_storage [simp]:
  "results (setResults h rs (s\<lparr>localStorage := st\<rparr>)) = results (setResults h rs s)"
  using setResults_memory [of "s\<lparr>localStorage := st\<rparr>" s h rs]
  by (simp add: memory_eq_iff)

lemma results_setResults_cong:
  assumes "weights s = weights t" and "results s = results t"
  shows "results (setResults h rs s) = results (setResults h rs t)"
proof -
  have "memory (s\<lparr>results := rs\<rparr>) = memory (t\<lparr>results := rs, jdFile := jdFile s,
          cvFiles := cvFiles s, isProcessing := isProcessing s,
          currentProcessingIndex := currentProcessingIndex s\<rparr>)"
    using assms by (simp add: memory_eq_iff)
  then have "memory (setResults h rs s) = memory (setResults h rs (t\<lparr>jdFile := jdFile s,
          cvFiles := cvFiles s, isProcessing := isProcessing s,
          currentProcessingIndex := currentProcessingIndex s\<rparr>))"
    using assms by (intro setResults_memory) (simp add: memory_eq_iff)
  then have "results (setResults h rs s) = results (setResults h rs (t\<lparr>jdFile := jdFile s,
          cvFiles := cvFiles s, isProcessing := isProcessing s,
          currentProcessingIndex := currentProcessingIndex s\<rparr>))"
    by (simp add: memory_eq_iff)
  also have "\<dots> = results (setResults h rs t)"
    by (simp add: setResults_def saveResults_def recalculateScores_def Let_def)
  finally show ?thesis .
qed

lemma loopBody_storage:
  "map_option memory (loopBody h jd jm w i cv (s\<lparr>localStorage := st\<rparr>))
   = map_option memory (loopBody h jd jm w i cv s)"
  by (auto simp: loopBody_def markError_def Let_def memory_eq_iff split: completion.split
      intro!: results_setResults_cong)

lemma loopBody_memory:
  assumes "memory s = memory t"
  shows "map_option memory (loopBody h jd jm w i cv s)
         = map_option memory (loopBody h jd jm w i cv t)"
  by (subst memory_eqD [OF assms]) (simp only: loopBody_storage)

lemma analysisLoop_memory:
  "memory s = memory t \<Longrightarrow>
   map_option memory (analysisLoop h jd jm w rest i s)
   = map_option memory (analysisLoop h jd jm w rest i t)"
proof (induction rest arbitrary: i s t)
  case Nil
  then show ?case by simp
next
  case (Cons cv rest)
  have step: "map_option memory (loopBody h jd jm w i cv s)
              = map_option memory (loopBody h jd jm w i cv t)"
    using Cons.prems by (rule loopBody_memory)
  show ?case
  proof (cases "loopBody h jd jm w i cv s")
    case None
    then have "loopBody h jd jm w i cv t = None"
      using step by simp
    then show ?thesis
      using None by simp
  next
    case (Some a)
    then obtain b where b: "loopBody h jd jm w i cv t = Some b" and ab: "memory a = memory b"
      using step by (cases "loopBody h jd jm w i cv t") simp_all
    have "map_option memory (analysisLoop h jd jm w rest (Suc i) a)
          = map_option memory (analysisLoop h jd jm w rest (Suc i) b)"
      using ab by (rule Cons.IH)
    then show ?thesis
      by (simp only: analysisLoop.simps Some b option.case)
  qed
qed

lemma startAnalysis_storage:
  "map_option memory (startAnalysis h (s\<lparr>localStorage := st\<rparr>))
   = map_option memory (startAnalysis h s)"
proof (cases "jdFile s = None \<or> cvFiles s = []")
  case True
  then have "jdFile (s\<lparr>localStorage := st\<rparr>) = None \<or> cvFiles (s\<lparr>localStorage := st\<rparr>) = []"
    by simp
  then show ?thesis
    using True by (simp only: startAnalysis_guard option.map memory_storage)
next
  case False
  then obtain jd where s: "jdFile s = Some jd" "cvFiles s \<noteq> []"
    by auto
  then have t: "jdFile (s\<lparr>localStorage := st\<rparr>) = Some jd" "cvFiles (s\<lparr>localStorage := st\<rparr>) \<noteq> []"
    by simp_all
  let ?fin = "\<lambda>s2. s2\<lparr>isProcessing := False, currentProcessingIndex := - 1\<rparr>"
  have start: "memory (setResults h [] (s\<lparr>localStorage := st\<rparr>\<lparr>isProcessing := True\<rparr>))
             = memory (setResults h [] (s\<lparr>isProcessing := True\<rparr>))"
    by (rule setResults_memory) (simp add: memory_eq_iff)
  have fin: "memory (?fin a) = memory (?fin b)" if "memory a = memory b" for a b
    using that by (simp add: memory_eq_iff)
  have fino: "map_option memory (map_option ?fin x) = map_option memory (map_option ?fin y)"
    if "map_option memory x = map_option memory y" for x y
    using that by (cases x; cases y) (simp_all add: memory_eq_iff)
  show ?thesis
  proof (cases "fileToBase64 h jd")
    case (Inl e)
    have "startAnalysis h (s\<lparr>localStorage := st\<rparr>)
          = map_option ?fin (Some (setResults h [] (s\<lparr>localStorage := st\<rparr>\<lparr>isProcessing := True\<rparr>)))"
      and "startAnalysis h s
          = map_option ?fin (Some (setResults h [] (s\<lparr>isProcessing := True\<rparr>)))"
      using Inl by (simp_all only: startAnalysis_run [OF s] startAnalysis_run [OF t] sum.case)
    then show ?thesis
      using fin [OF start] by (simp only: option.map)
  next
    case (Inr b)
    have "startAnalysis h (s\<lparr>localStorage := st\<rparr>)
          = map_option ?fin
              (analysisLoop h b (mimeOf jd) (weights (s\<lparr>localStorage := st\<rparr>))
                 (cvFiles (s\<lparr>localStorage := st\<rparr>)) 0
                 (setResults h [] (s\<lparr>localStorage := st\<rparr>\<lparr>isProcessing := True\<rparr>)))"
      and "startAnalysis h s
          = map_option ?fin
              (analysisLoop h b (mimeOf jd) (weights s) (cvFiles s) 0
                 (setResults h [] (s\<lparr>isProcessing := True\<rparr>)))"
      using Inr by (simp_all only: startAnalysis_run [OF s] startAnalysis_run [OF t] sum.case)
    moreover have "weights (s\<lparr>localStorage := st\<rparr>) = weights s"
      and "cvFiles (s\<lparr>localStorage := st\<rparr>) = cvFiles s"
      by simp_all
    ultimately show ?thesis
      using fino [OF analysisLoop_memory [OF start]] by (simp only:)
  qed
qed

lemma downloadReport_storage:
  "memory (snd (downloadReport h (s\<lparr>localStorage := st\<rparr>))) = memory (snd (downloadReport h s))"
  "fst (downloadReport h (s\<lparr>localStorage := st\<rparr>)) = fst (downloadReport h s)"
  by (simp_all add: downloadReport_state memory_eq_iff)
     (simp add: downloadReport_def handleDownload_def case_prod_beta)

text \<open>Startup.\<close>

lemma mount_first_commit:
  "recalculateScores h (saveResults (saveWeights (initialState st))) = saveWeights (initialState st)"
  by (simp add: recalculateScores_def saveResults_def saveWeights_def initialState_def)

lemma mount_unfold:
  "mount h st =
     (let s1 = saveWeights (initialState st);
          s2 = (case st WEIGHTS_KEY of Some (WeightsBlob w) \<Rightarrow> setWeights h w s1 | _ \<Rightarrow> s1)
      in case st RESULTS_KEY of Some (ResultsBlob rs) \<Rightarrow> setResults h rs s2 | _ \<Rightarrow> s2)"
proof -
  have ls: "localStorage (initialState st) = st"
    by (simp add: initialState_def)
  show ?thesis
    by (simp add: mount_def Let_def mount_first_commit ls split: option.split blob.split)
qed

lemma weights_mount:
  "weights (mount h st)
   = (case st WEIGHTS_KEY of Some (WeightsBlob w) \<Rightarrow> w | _ \<Rightarrow> DEFAULT_WEIGHTS)"
  by (simp add: mount_unfold Let_def initialState_def split: option.split blob.split)

lemma mount_weights_key:
  "localStorage (mount h st) WEIGHTS_KEY = Some (WeightsBlob (weights (mount h st)))"
  by (simp add: mount_unfold Let_def setResults_other_keys localStorage_setWeights_weights
      localStorage_saveWeights split: option.split blob.split)

lemma mount_other_keys:
  "k \<noteq> WEIGHTS_KEY \<Longrightarrow> k \<noteq> RESULTS_KEY \<Longrightarrow> localStorage (mount h st) k = st k"
  by (simp add: mount_unfold Let_def setResults_other_keys setWeights_other_keys
      localStorage_saveWeights initialState_def split: option.split blob.split)

lemma results_setWeights_Nil: "results s = [] \<Longrightarrow> results (setWeights h w s) = []"
  by (simp add: setWeights_def)

lemma mount_synced:
  "results (mount h st) \<noteq> [] \<longrightarrow>
   localStorage (mount h st) RESULTS_KEY = Some (ResultsBlob (results (mount h st)))"
  using setResults_synced
  by (simp add: mount_unfold Let_def results_setWeights_Nil initialState_def
      split: option.split blob.split)

lemma results_setResults_cases:
  "results (setResults h rs s) = rs
   \<or> results (setResults h rs s) = map (\<lambda>r. calculateFinalScore r (weights s)) rs"
proof -
  let ?s = "saveResults (s\<lparr>results := rs\<rparr>)"
  have "results (recalculateScores h ?s) = rs
        \<or> results (recalculateScores h ?s) = map (\<lambda>r. calculateFinalScore r (weights s)) rs"
    using recalculateScores_cases [of h ?s] by auto
  then show ?thesis
    by (auto simp: setResults_def Let_def)
qed

lemma results_mount:
  assumes "st RESULTS_KEY = Some (ResultsBlob rs)"
  shows "results (mount h st) = rs
         \<or> results (mount h st) = map (\<lambda>r. calculateFinalScore r (weights (mount h st))) rs"
proof -
  let ?s2 = "case st WEIGHTS_KEY of
               Some (WeightsBlob w) \<Rightarrow> setWeights h w (saveWeights (initialState st))
             | _ \<Rightarrow> saveWeights (initialState st)"
  have m: "mount h st = setResults h rs ?s2"
    using assms by (simp add: mount_unfold Let_def)
  have "weights (mount h st) = weights ?s2"
    by (simp add: m)
  then show ?thesis
    using results_setResults_cases [of h rs ?s2] by (simp only: m)
qed

lemma localStorage_mount:
  "localStorage (mount h st)
   = (if results (mount h st) = []
      then st(WEIGHTS_KEY \<mapsto> WeightsBlob (weights (mount h st)))
      else st(WEIGHTS_KEY \<mapsto> WeightsBlob (weights (mount h st)),
              RESULTS_KEY \<mapsto> ResultsBlob (results (mount h st))))"
proof -
  define s2 where
    "s2 = (case st WEIGHTS_KEY of
             Some (WeightsBlob w) \<Rightarrow> setWeights h w (saveWeights (initialState st))
           | _ \<Rightarrow> saveWeights (initialState st))"
  have r0: "results (initialState st) = []"
    by (simp add: initialState_def)
  have r2: "results s2 = []"
    unfolding s2_def
    by (simp add: r0 results_setWeights_Nil split: option.split blob.split)
  have l2: "localStorage s2 = st(WEIGHTS_KEY \<mapsto> WeightsBlob (weights s2))"
    unfolding s2_def
    by (simp add: r0 localStorage_setWeights localStorage_saveWeights results_setWeights_Nil
        initialState_def split: option.split blob.split)
  have m: "mount h st
           = (case st RESULTS_KEY of Some (ResultsBlob rs) \<Rightarrow> setResults h rs s2 | _ \<Rightarrow> s2)"
    unfolding s2_def by (simp add: mount_unfold Let_def)
  show ?thesis
  proof (cases "\<exists>rs. st RESULTS_KEY = Some (ResultsBlob rs)")
    case True
    then obtain rs where rs: "st RESULTS_KEY = Some (ResultsBlob rs)"
      by blast
    have m': "mount h st = setResults h rs s2"
      by (simp add: m rs)
    show ?thesis
      by (simp add: m' localStorage_setResults l2)
  next
    case False
    then have m': "mount h st = s2"
      by (simp add: m split: option.split blob.split)
    show ?thesis
      by (simp add: m' r2 l2)
  qed
qed

lemma results_mount_none:
  assumes "\<forall>rs. st RESULTS_KEY \<noteq> Some (ResultsBlob rs)"
  shows "results (mount h st) = []"
proof -
  have "results (initialState st) = []"
    by (simp add: initialState_def)
  then show ?thesis
    using assms
    by (simp add: mount_unfold Let_def results_setWeights_Nil split: option.split blob.split)
qed

text \<open>
  C8, as stated, fails for a change of the result list to the empty list: the saving
  effect writes only a non-empty list.  After \<open>setResults([])\<close>, the first step of every
  run, memory holds the empty list and the storage still holds the list of before.
\<close>

theorem C8_empty_list_counterexample:
  "results (setResults sampleHost [] (setResults sampleHost [scoredSample] (sampleState [] []))) = []
   \<and> localStorage (setResults sampleHost [] (setResults sampleHost [scoredSample] (sampleState [] [])))
        RESULTS_KEY
       = Some (ResultsBlob [scoredSample])
   \<and> localStorage (setResults sampleHost [] (setResults sampleHost [scoredSample] (sampleState [] [])))
        RESULTS_KEY
       \<noteq> Some (ResultsBlob
            (results (setResults sampleHost [] (setResults sampleHost [scoredSample] (sampleState [] [])))))"
proof -
  let ?s0 = "setResults sampleHost [scoredSample] (sampleState [] [])"
  have fixed: "map (\<lambda>r. calculateFinalScore r (weights (sampleState [] []))) [scoredSample]
               = [scoredSample]"
    by (simp add: scoredSample_def calculateFinalScore_idem)
  have r0: "results ?s0 = [scoredSample]"
    by (rule results_setResults [OF fixed])
  have "localStorage ?s0 RESULTS_KEY = Some (ResultsBlob (results ?s0))"
    using setResults_synced [of sampleHost "[scoredSample]" "sampleState [] []"] by simp
  then have st0: "localStorage ?s0 RESULTS_KEY = Some (ResultsBlob [scoredSample])"
    by (simp only: r0)
  show ?thesis
    using st0 by simp
qed

text \<open>
  C8 (as amended).  What each operation does to the storage, exactly.  \<open>setWeights\<close>
  writes the new weights under the weights key, and the result list under the results key
  when the recalculation changed it, and nothing else.  \<open>setResults\<close> with a non-empty
  list writes the list that memory then holds under the results key and nothing else;
  with the empty list it writes nothing, so the old blob stays.  A run of \<open>startAnalysis\<close>
  leaves the storage as it was while its result list is empty, and otherwise leaves it
  with the final result list written over the results key.  \<open>clearAllData\<close>, when
  confirmed, empties the list and removes the results key, and is the only operation
  that removes a key.  The download of the report sorts the list in memory and writes
  nothing: memory then holds the sorted list and the storage the list as last written.
  At startup the stored weights and results are read and become the in-memory values
  (the results with their scores recomputed when these differ), the weights are written,
  and the results are written when the list is not empty.  No operation other than
  startup reads the storage: the in-memory state after it does not depend on the storage
  before it.  A blob holds the weights or the result records only, by its type: no file
  contents.
\<close>

theorem C8_persistence:
  "weights (setWeights h w s) = w
   \<and> localStorage (setWeights h w s)
     = (if results (setWeights h w s) = results s
        then (localStorage s)(WEIGHTS_KEY \<mapsto> WeightsBlob w)
        else (localStorage s)(WEIGHTS_KEY \<mapsto> WeightsBlob w,
                               RESULTS_KEY \<mapsto> ResultsBlob (results (setWeights h w s))))
   \<and> (results (setResults h rs s) = [] \<longleftrightarrow> rs = [])
   \<and> localStorage (setResults h rs s)
     = (if rs = [] then localStorage s
        else (localStorage s)(RESULTS_KEY \<mapsto> ResultsBlob (results (setResults h rs s))))
   \<and> (jdFile s = None \<or> cvFiles s = [] \<longrightarrow> startAnalysis h s = Some s)
   \<and> (jdFile s \<noteq> None \<and> cvFiles s \<noteq> [] \<and> startAnalysis h s = Some s'
        \<longrightarrow> localStorage s'
            = (if results s' = [] then localStorage s
               else (localStorage s)(RESULTS_KEY \<mapsto> ResultsBlob (results s'))))
   \<and> results (clearAllData h True s) = []
   \<and> localStorage (clearAllData h True s) = (localStorage s)(RESULTS_KEY := None)
   \<and> clearAllData h False s = s
   \<and> snd (downloadReport h s) = s\<lparr>results := sortByScoreDesc (results s)\<rparr>
   \<and> weights (mount h st)
     = (case st WEIGHTS_KEY of Some (WeightsBlob w0) \<Rightarrow> w0 | _ \<Rightarrow> DEFAULT_WEIGHTS)
   \<and> (st RESULTS_KEY = Some (ResultsBlob rs0)
        \<longrightarrow> results (mount h st) = rs0
          \<or> results (mount h st) = map (\<lambda>r. calculateFinalScore r (weights (mount h st))) rs0)
   \<and> ((\<forall>rs1. st RESULTS_KEY \<noteq> Some (ResultsBlob rs1)) \<longrightarrow> results (mount h st) = [])
   \<and> localStorage (mount h st)
     = (if results (mount h st) = []
        then st(WEIGHTS_KEY \<mapsto> WeightsBlob (weights (mount h st)))
        else st(WEIGHTS_KEY \<mapsto> WeightsBlob (weights (mount h st)),
                RESULTS_KEY \<mapsto> ResultsBlob (results (mount h st))))
   \<and> memory (setWeights h w (s\<lparr>localStorage := st\<rparr>)) = memory (setWeights h w s)
   \<and> memory (setResults h rs (s\<lparr>localStorage := st\<rparr>)) = memory (setResults h rs s)
   \<and> map_option memory (startAnalysis h (s\<lparr>localStorage := st\<rparr>))
     = map_option memory (startAnalysis h s)
   \<and> memory (clearAllData h b (s\<lparr>localStorage := st\<rparr>)) = memory (clearAllData h b s)
   \<and> memory (snd (downloadReport h (s\<lparr>localStorage := st\<rparr>)))
     = memory (snd (downloadReport h s))
   \<and> fst (downloadReport h (s\<lparr>localStorage := st\<rparr>)) = fst (downloadReport h s)"
proof -
  have run: "jdFile s \<noteq> None \<and> cvFiles s \<noteq> [] \<and> startAnalysis h s = Some s'
        \<longrightarrow> localStorage s'
            = (if results s' = [] then localStorage s
               else (localStorage s)(RESULTS_KEY \<mapsto> ResultsBlob (results s')))"
    using localStorage_startAnalysis [of s h s'] by blast
  have guard: "jdFile s = None \<or> cvFiles s = [] \<longrightarrow> startAnalysis h s = Some s"
    using startAnalysis_guard [of s h] by blast
  have rm: "st RESULTS_KEY = Some (ResultsBlob rs0)
        \<longrightarrow> results (mount h st) = rs0
          \<or> results (mount h st) = map (\<lambda>r. calculateFinalScore r (weights (mount h st))) rs0"
    using results_mount [of st rs0 h] by blast
  have rn: "(\<forall>rs1. st RESULTS_KEY \<noteq> Some (ResultsBlob rs1)) \<longrightarrow> results (mount h st) = []"
    using results_mount_none [of st h] by blast
  have mem: "memory (setWeights h w (s\<lparr>localStorage := st\<rparr>)) = memory (setWeights h w s)"
    "memory (setResults h rs (s\<lparr>localStorage := st\<rparr>)) = memory (setResults h rs s)"
    "memory (clearAllData h b (s\<lparr>localStorage := st\<rparr>)) = memory (clearAllData h b s)"
    by (rule setWeights_memory setResults_memory clearAllData_memory, simp)+
  show ?thesis
    by (intro conjI weights_setWeights localStorage_setWeights results_setResults_eq_Nil
        localStorage_setResults guard run results_clearAllData localStorage_clearAllData
        clearAllData_False downloadReport_state weights_mount rm rn localStorage_mount mem
        startAnalysis_storage downloadReport_storage)
qed

theorem C8_persistence_witness:
  "results (setWeights sampleHost skillsOnlyWeights (sampleState [] [scoredSample])) \<noteq> results (sampleState [] [scoredSample])
   \<and> localStorage (setWeights sampleHost skillsOnlyWeights (sampleState [] [scoredSample]))
     = [WEIGHTS_KEY \<mapsto> WeightsBlob skillsOnlyWeights,
        RESULTS_KEY \<mapsto> ResultsBlob (results (setWeights sampleHost skillsOnlyWeights (sampleState [] [scoredSample])))]
   \<and> localStorage (setResults sampleHost [scoredSample] (sampleState [] []))
     = [RESULTS_KEY \<mapsto>
          ResultsBlob (results (setResults sampleHost [scoredSample] (sampleState [] [])))]
   \<and> cvFiles (sampleState [] [scoredSample]) = []
   \<and> startAnalysis sampleHost (sampleState [] [scoredSample]) = Some (sampleState [] [scoredSample])
   \<and> jdFile (sampleState [sampleUpload ''f1'' ''a.pdf'' ''Ann''] []) \<noteq> None
   \<and> cvFiles (sampleState [sampleUpload ''f1'' ''a.pdf'' ''Ann''] []) \<noteq> []
   \<and> startAnalysis sampleHost (sampleState [sampleUpload ''f1'' ''a.pdf'' ''Ann''] []) \<noteq> None
   \<and> results (the (startAnalysis sampleHost (sampleState [sampleUpload ''f1'' ''a.pdf'' ''Ann''] []))) \<noteq> []
   \<and> localStorage (the (startAnalysis sampleHost (sampleState [sampleUpload ''f1'' ''a.pdf'' ''Ann''] [])))
     = [RESULTS_KEY \<mapsto> ResultsBlob (results (the (startAnalysis sampleHost (sampleState [sampleUpload ''f1'' ''a.pdf'' ''Ann''] []))))]
   \<and> results (snd (downloadReport sampleHost (sampleState [] [bobLi, janeDoe]))) = [janeDoe, bobLi]
   \<and> results (snd (downloadReport sampleHost (sampleState [] [bobLi, janeDoe]))) \<noteq> results (sampleState [] [bobLi, janeDoe])
   \<and> localStorage (snd (downloadReport sampleHost (sampleState [] [bobLi, janeDoe]))) = localStorage (sampleState [] [bobLi, janeDoe])
   \<and> [WEIGHTS_KEY \<mapsto> WeightsBlob skillsOnlyWeights, RESULTS_KEY \<mapsto> ResultsBlob [scoredSample]] RESULTS_KEY = Some (ResultsBlob [scoredSample])
   \<and> weights (mount sampleHost [WEIGHTS_KEY \<mapsto> WeightsBlob skillsOnlyWeights, RESULTS_KEY \<mapsto> ResultsBlob [scoredSample]]) = skillsOnlyWeights
   \<and> length (results (mount sampleHost [WEIGHTS_KEY \<mapsto> WeightsBlob skillsOnlyWeights, RESULTS_KEY \<mapsto> ResultsBlob [scoredSample]])) = 1
   \<and> localStorage (mount sampleHost [WEIGHTS_KEY \<mapsto> WeightsBlob skillsOnlyWeights, RESULTS_KEY \<mapsto> ResultsBlob [scoredSample]])
     = [WEIGHTS_KEY \<mapsto> WeightsBlob skillsOnlyWeights,
        RESULTS_KEY \<mapsto> ResultsBlob (results (mount sampleHost [WEIGHTS_KEY \<mapsto> WeightsBlob skillsOnlyWeights, RESULTS_KEY \<mapsto> ResultsBlob [scoredSample]]))]
   \<and> results (mount sampleHost Map.empty) = []
   \<and> localStorage (mount sampleHost Map.empty) = [WEIGHTS_KEY \<mapsto> WeightsBlob DEFAULT_WEIGHTS]"
proof -
  let ?st = "[WEIGHTS_KEY \<mapsto> WeightsBlob skillsOnlyWeights, RESULTS_KEY \<mapsto> ResultsBlob [scoredSample]]"
  let ?s = "sampleState [] [scoredSample]"
  let ?run = "sampleState [sampleUpload ''f1'' ''a.pdf'' ''Ann''] []"
  let ?d = "sampleState [] [bobLi, janeDoe]"
  have score: "finalScore scoredSample = 72"
    by (simp add: scoredSample_def calculateFinalScore_def Let_def rawScore_def DEFAULT_WEIGHTS_def
        totalWeight_def sampleCandidate_def candidateOf_def sampleRaw_def sampleRatings_def)
  have rescored: "finalScore (calculateFinalScore scoredSample skillsOnlyWeights) = 80"
    by (simp add: scoredSample_def calculateFinalScore_def Let_def rawScore_def DEFAULT_WEIGHTS_def
        skillsOnlyWeights_def totalWeight_def sampleCandidate_def candidateOf_def sampleRaw_def
        sampleRatings_def)
  have "results (setWeights sampleHost skillsOnlyWeights ?s)
        = [calculateFinalScore scoredSample skillsOnlyWeights]"
    by (simp add: setWeights_def recalculateScores_def Let_def score rescored)
       (simp add: sampleHost_def)
  then have changed: "results (setWeights sampleHost skillsOnlyWeights ?s) \<noteq> results ?s"
    using score rescored by auto
  have empty: "localStorage (sampleState fs rs) = Map.empty" for fs rs
    by (simp add: sampleState_def)
  note a = C8_persistence [where h = sampleHost and w = skillsOnlyWeights and s = ?s
      and rs = "[scoredSample]" and st = ?st and ?rs0.0 = "[scoredSample]" and b = True]
  have a2: "localStorage (setWeights sampleHost skillsOnlyWeights ?s)
            = [WEIGHTS_KEY \<mapsto> WeightsBlob skillsOnlyWeights,
               RESULTS_KEY \<mapsto> ResultsBlob (results (setWeights sampleHost skillsOnlyWeights ?s))]"
    using a [THEN conjunct2, THEN conjunct1] changed by (simp add: empty)
  have a5: "startAnalysis sampleHost ?s = Some ?s"
    using a [THEN conjunct2, THEN conjunct2, THEN conjunct2, THEN conjunct2, THEN conjunct1] by simp
  note b = C8_persistence [where h = sampleHost and s = "sampleState [] []"
      and rs = "[scoredSample]"]
  have b4: "localStorage (setResults sampleHost [scoredSample] (sampleState [] []))
            = [RESULTS_KEY \<mapsto>
                 ResultsBlob (results (setResults sampleHost [scoredSample] (sampleState [] [])))]"
    using b [THEN conjunct2, THEN conjunct2, THEN conjunct2, THEN conjunct1] by (simp add: empty)
  have jd: "jdFile ?run = Some (sampleFile ''jd.pdf'' ''JD'')" and ne: "cvFiles ?run \<noteq> []"
    by simp_all
  have rd: "fileToBase64 sampleHost (sampleFile ''jd.pdf'' ''JD'') = Inr (Some ''JD'')"
    by (rule sample_fileToBase64)
  have "\<not> (\<exists>b. fileToBase64 sampleHost (sampleFile ''jd.pdf'' ''JD'') = Inr b
              \<and> (\<exists>cv \<in> set (cvFiles ?run).
                    tryBlock sampleHost b (mimeOf (sampleFile ''jd.pdf'' ''JD''))
                      (weights ?run) cv = Untypable))"
    by (simp add: sample_fileToBase64 sample_tryBlock)
  then have "startAnalysis sampleHost ?run \<noteq> None"
    by (simp only: startAnalysis_None [OF jd ne, of sampleHost] not_False_eq_True)
  then obtain s' where run: "startAnalysis sampleHost ?run = Some s'"
    by blast
  have ran: "results s' \<noteq> []"
    by (simp add: startAnalysis_results [OF jd ne rd run] sample_tryBlock List.map_filter_simps)
  have runhyp: "jdFile ?run \<noteq> None \<and> cvFiles ?run \<noteq> [] \<and> startAnalysis sampleHost ?run = Some s'"
    using jd ne run by simp
  note c = C8_persistence [where h = sampleHost and s = ?run and s' = s']
  have c6: "localStorage s' = [RESULTS_KEY \<mapsto> ResultsBlob (results s')]"
    using c [THEN conjunct2, THEN conjunct2, THEN conjunct2, THEN conjunct2, THEN conjunct2, THEN conjunct1, THEN mp, OF runhyp] ran by (simp add: empty)
  have lt: "finalScore bobLi < finalScore janeDoe"
    by (simp add: bobLi_def janeDoe_def)
  have srt: "sortByScoreDesc [bobLi, janeDoe] = [janeDoe, bobLi]"
    using lt by (simp add: sortByScoreDesc_def)
  note d = C8_persistence [where h = sampleHost and s = ?d]
  have d10: "snd (downloadReport sampleHost ?d) = ?d\<lparr>results := [janeDoe, bobLi]\<rparr>"
    using d [THEN conjunct2, THEN conjunct2, THEN conjunct2, THEN conjunct2, THEN conjunct2, THEN conjunct2, THEN conjunct2, THEN conjunct2, THEN conjunct2, THEN conjunct1] by (simp add: srt)
  have neq: "[janeDoe, bobLi] \<noteq> [bobLi, janeDoe]"
    using lt by auto
  have stw: "?st WEIGHTS_KEY = Some (WeightsBlob skillsOnlyWeights)"
    and str: "?st RESULTS_KEY = Some (ResultsBlob [scoredSample])"
    by simp_all
  have a11: "weights (mount sampleHost ?st) = skillsOnlyWeights"
    using a [THEN conjunct2, THEN conjunct2, THEN conjunct2, THEN conjunct2, THEN conjunct2, THEN conjunct2, THEN conjunct2, THEN conjunct2, THEN conjunct2, THEN conjunct2, THEN conjunct1] by (simp add: stw)
  have "results (mount sampleHost ?st) = [scoredSample]
        \<or> results (mount sampleHost ?st)
          = map (\<lambda>r. calculateFinalScore r (weights (mount sampleHost ?st))) [scoredSample]"
    by (rule a [THEN conjunct2, THEN conjunct2, THEN conjunct2, THEN conjunct2, THEN conjunct2, THEN conjunct2, THEN conjunct2, THEN conjunct2, THEN conjunct2, THEN conjunct2, THEN conjunct2, THEN conjunct1, THEN mp, OF str])
  then have a12: "length (results (mount sampleHost ?st)) = 1"
    by auto
  then have loaded: "results (mount sampleHost ?st) \<noteq> []"
    by auto
  have a14: "localStorage (mount sampleHost ?st)
             = [WEIGHTS_KEY \<mapsto> WeightsBlob skillsOnlyWeights,
                RESULTS_KEY \<mapsto> ResultsBlob (results (mount sampleHost ?st))]"
    using a [THEN conjunct2, THEN conjunct2, THEN conjunct2, THEN conjunct2, THEN conjunct2, THEN conjunct2, THEN conjunct2, THEN conjunct2, THEN conjunct2, THEN conjunct2, THEN conjunct2, THEN conjunct2, THEN conjunct2, THEN conjunct1] loaded by (simp add: a11)
  note e = C8_persistence [where h = sampleHost and st = Map.empty]
  have e13: "results (mount sampleHost Map.empty) = []"
    using e [THEN conjunct2, THEN conjunct2, THEN conjunct2, THEN conjunct2, THEN conjunct2, THEN conjunct2, THEN conjunct2, THEN conjunct2, THEN conjunct2, THEN conjunct2, THEN conjunct2, THEN conjunct2, THEN conjunct1] by simp
  have e11: "weights (mount sampleHost Map.empty) = DEFAULT_WEIGHTS"
    using e [THEN conjunct2, THEN conjunct2, THEN conjunct2, THEN conjunct2, THEN conjunct2, THEN conjunct2, THEN conjunct2, THEN conjunct2, THEN conjunct2, THEN conjunct2, THEN conjunct1] by simp
  have e14: "localStorage (mount sampleHost Map.empty) = [WEIGHTS_KEY \<mapsto> WeightsBlob DEFAULT_WEIGHTS]"
    using e [THEN conjunct2, THEN conjunct2, THEN conjunct2, THEN conjunct2, THEN conjunct2, THEN conjunct2, THEN conjunct2, THEN conjunct2, THEN conjunct2, THEN conjunct2, THEN conjunct2, THEN conjunct2, THEN conjunct2, THEN conjunct1] by (simp add: e13 e11)
  show ?thesis
    using changed a2 b4 a5 jd ne ran c6 neq str a11 a12 a14 e13 e14
    by (simp add: run d10)
qed

end
